theory Spec2Isabelle
  imports Complex_Main "HOL-Library.List_Lexorder"
begin

section \<open>Python values\<close>

text \<open>
  A Python \<open>str\<close> is a sequence of Unicode code points, so a string is a list of
  natural numbers here. \<open>str\<close> turns an ASCII literal into such a list.
\<close>

type_synonym pystr = "nat list"

definition str :: "string \<Rightarrow> pystr" where
  "str s = map of_char s"

text \<open>
  The code points for which \<open>str.isspace\<close> holds: these are what \<open>str.strip()\<close>
  removes at both ends.
\<close>

definition is_space :: "nat \<Rightarrow> bool" where
  "is_space c =
     ((9 \<le> c \<and> c \<le> 13) \<or> (28 \<le> c \<and> c \<le> 32) \<or> c = 133 \<or> c = 160 \<or> c = 5760
      \<or> (8192 \<le> c \<and> c \<le> 8202) \<or> c = 8232 \<or> c = 8233 \<or> c = 8239 \<or> c = 8287
      \<or> c = 12288)"

definition py_strip :: "pystr \<Rightarrow> pystr" where
  "py_strip s = rev (dropWhile is_space (rev (dropWhile is_space s)))"

definition ascii_lower :: "nat \<Rightarrow> nat" where
  "ascii_lower c = (if 65 \<le> c \<and> c \<le> 90 then c + 32 else c)"

definition is_ascii :: "pystr \<Rightarrow> bool" where
  "is_ascii s = list_all (\<lambda>c. c < 128) s"

text \<open>
  A float is a finite rational or one of the three special values; comparison with an
  integer is exact in Python, so rationals model it.
\<close>

datatype pyfloat = Finite rat | PosInf | NegInf | NaN

datatype datetime = Datetime int

datatype pyval =
    PyNone
  | PyBool bool
  | PyInt int
  | PyFloat pyfloat
  | PyStr pystr
  | PyDatetime datetime
  | PyDict "(pystr \<times> pyval) list"
  | PyList "pyval list"

type_synonym pydict = "(pystr \<times> pyval) list"

text \<open>\<open>d.get(k)\<close>: the value, or \<open>None\<close> for a missing key.\<close>

definition dict_get :: "pydict \<Rightarrow> pystr \<Rightarrow> pyval" where
  "dict_get d k = (case map_of d k of None \<Rightarrow> PyNone | Some v \<Rightarrow> v)"

text \<open>\<open>d[k] = v\<close>: an existing key keeps its position, a new key goes last.\<close>

fun dict_set :: "pydict \<Rightarrow> pystr \<Rightarrow> pyval \<Rightarrow> pydict" where
  "dict_set [] k v = [(k, v)]"
| "dict_set ((k', v') # d) k v =
     (if k' = k then (k, v) # d else (k', v') # dict_set d k v)"

text \<open>Truth value of an object, as \<open>if x:\<close> tests it.\<close>

fun py_truthy :: "pyval \<Rightarrow> bool" where
  "py_truthy PyNone = False"
| "py_truthy (PyBool b) = b"
| "py_truthy (PyInt i) = (i \<noteq> 0)"
| "py_truthy (PyFloat f) = (f \<noteq> Finite 0)"
| "py_truthy (PyStr s) = (s \<noteq> [])"
| "py_truthy (PyDatetime t) = True"
| "py_truthy (PyDict d) = (d \<noteq> [])"
| "py_truthy (PyList l) = (l \<noteq> [])"

text \<open>\<open>value > n\<close> for a number \<open>value\<close> and an integer \<open>n\<close>; a boolean counts as 0 or 1.\<close>

fun py_gt_int :: "pyval \<Rightarrow> int \<Rightarrow> bool" where
  "py_gt_int (PyBool b) n = ((if b then 1 else 0) > n)"
| "py_gt_int (PyInt i) n = (i > n)"
| "py_gt_int (PyFloat (Finite q)) n = (q > of_int n)"
| "py_gt_int (PyFloat PosInf) n = True"
| "py_gt_int (PyFloat NegInf) n = False"
| "py_gt_int (PyFloat NaN) n = False"
| "py_gt_int v n = False"

section \<open>The libraries the code calls\<close>

text \<open>
  What a call into a library does: it returns, raises \<open>ValueError\<close> (or a subclass) with
  a message, or raises another exception.
\<close>

datatype 'a outcome = Returns 'a | ValueError pystr | OtherException

datatype epoch_unit = Seconds | Milliseconds

text \<open>
  \<open>pd.to_datetime(raw, errors="raise")\<close> on a string and
  \<open>pd.to_datetime(value, unit=unit, errors="raise")\<close> on a number, each followed by
  \<open>to_pydatetime()\<close>.
\<close>

record pandas =
  to_datetime_str :: "pystr \<Rightarrow> datetime outcome"
  to_datetime_unit :: "pyval \<Rightarrow> epoch_unit \<Rightarrow> datetime outcome"

text \<open>
  The interpreter and libraries around the code: \<open>pd\<close> is \<open>None\<close> when pandas is not
  installed; \<open>fromisoformat\<close> is \<open>datetime.fromisoformat\<close> (\<open>None\<close> for its
  \<open>ValueError\<close>); \<open>json_loads\<close> is \<open>json.loads\<close> (\<open>Inl\<close> the message of its
  \<open>JSONDecodeError\<close>); \<open>json_dumps\<close> is \<open>json.dumps\<close> with compact separators;
  \<open>unicode_lower\<close> is \<open>str.lower\<close> on strings with code points beyond ASCII;
  \<open>py_format\<close> is \<open>format(v, "")\<close> for values that are not strings.
\<close>

record runtime =
  pd :: "pandas option"
  fromisoformat :: "pystr \<Rightarrow> datetime option"
  json_loads :: "pystr \<Rightarrow> pystr + pyval"
  json_dumps :: "pydict \<Rightarrow> pystr"
  unicode_lower :: "pystr \<Rightarrow> pystr"
  py_format :: "pyval \<Rightarrow> pystr"

definition py_lower :: "runtime \<Rightarrow> pystr \<Rightarrow> pystr" where
  "py_lower rt s = (if is_ascii s then map ascii_lower s else unicode_lower rt s)"

section \<open>shared.py: headers and rows\<close>

definition EXPECTED_HEADERS :: "pystr list" where
  "EXPECTED_HEADERS =
     [str ''client_id'', str ''page_url'', str ''referrer'', str ''timestamp'',
      str ''event_name'', str ''event_data'', str ''user_agent'']"

definition CORE_HEADERS :: "pystr list" where
  "CORE_HEADERS =
     [str ''client_id'', str ''page_url'', str ''timestamp'', str ''event_name'',
      str ''event_data'', str ''user_agent'']"

definition BOM :: nat where
  "BOM = 65279"

text \<open>
  \<open>sanitize_header\<close>: \<open>None\<close> gives the empty string, a value that is not a string is
  formatted first; then every byte-order mark is removed and the ends are stripped.
\<close>

definition sanitize_header :: "runtime \<Rightarrow> pyval \<Rightarrow> pystr" where
  "sanitize_header rt name =
     (case name of
        PyNone \<Rightarrow> []
      | PyStr s \<Rightarrow> py_strip (filter (\<lambda>c. c \<noteq> BOM) s)
      | _ \<Rightarrow> py_strip (filter (\<lambda>c. c \<noteq> BOM) (py_format rt name)))"

definition normalize_column_name :: "runtime \<Rightarrow> pystr \<Rightarrow> pystr" where
  "normalize_column_name rt name =
     (let raw = sanitize_header rt (PyStr name);
          lower = py_lower rt raw
      in if lower \<in> set [str ''clientid'', str ''client_id''] \<or> raw = str ''clientId''
           then str ''client_id''
         else if lower \<in> set [str ''eventname'', str ''event_name''] \<or> raw = str ''eventName''
           then str ''event_name''
         else if lower \<in> set [str ''eventdata'', str ''event_data''] \<or> raw = str ''eventData''
           then str ''event_data''
         else if lower \<in> set [str ''pageurl'', str ''page_url''] \<or> raw = str ''pageUrl''
           then str ''page_url''
         else if lower \<in> set [str ''useragent'', str ''user_agent''] \<or> raw = str ''userAgent''
           then str ''user_agent''
         else if lower = str ''referrer'' then str ''referrer''
         else if lower = str ''timestamp'' then str ''timestamp''
         else if lower = str ''date'' then str ''date''
         else if lower = str ''time'' then str ''time''
         else raw)"

definition choose_value :: "pyval \<Rightarrow> pyval \<Rightarrow> pyval" where
  "choose_value existing candidate =
     (if existing = PyNone then candidate
      else case existing of
             PyStr s \<Rightarrow> (if py_strip s = [] then candidate else existing)
           | _ \<Rightarrow> existing)"

text \<open>\<open>column_map.get(src_key, normalize_column_name(src_key))\<close>.\<close>

definition target_key :: "runtime \<Rightarrow> (pystr \<times> pystr) list \<Rightarrow> pystr \<Rightarrow> pystr" where
  "target_key rt column_map src_key =
     (case map_of column_map src_key of
        Some t \<Rightarrow> t
      | None \<Rightarrow> normalize_column_name rt src_key)"

text \<open>The first loop of \<open>normalize_row\<close>, over \<open>row.items()\<close> in order.\<close>

fun merge_columns :: "runtime \<Rightarrow> (pystr \<times> pystr) list \<Rightarrow> pydict \<Rightarrow> pydict \<Rightarrow> pydict" where
  "merge_columns rt column_map normalized [] = normalized"
| "merge_columns rt column_map normalized ((src_key, v) # row) =
     (let norm_key = target_key rt column_map src_key
      in merge_columns rt column_map
           (dict_set normalized norm_key (choose_value (dict_get normalized norm_key) v)) row)"

definition format_value :: "runtime \<Rightarrow> pyval \<Rightarrow> pystr" where
  "format_value rt v = (case v of PyStr s \<Rightarrow> s | _ \<Rightarrow> py_format rt v)"

definition derive_timestamp :: "runtime \<Rightarrow> pydict \<Rightarrow> pydict" where
  "derive_timestamp rt normalized =
     (let date_part = dict_get normalized (str ''date'');
          time_part = dict_get normalized (str ''time'')
      in if py_truthy date_part \<and> py_truthy time_part
           then dict_set normalized (str ''timestamp'')
                  (PyStr (format_value rt date_part @ str '' '' @ format_value rt time_part))
         else if py_truthy date_part then dict_set normalized (str ''timestamp'') date_part
         else if py_truthy time_part then dict_set normalized (str ''timestamp'') time_part
         else normalized)"

definition normalize_row :: "runtime \<Rightarrow> pydict \<Rightarrow> (pystr \<times> pystr) list \<Rightarrow> bool \<Rightarrow> pydict" where
  "normalize_row rt row column_map derive_timestamp_from_date_time =
     (let normalized = merge_columns rt column_map [] row;
          normalized' =
            (if derive_timestamp_from_date_time \<and> str ''timestamp'' \<notin> fst ` set normalized
             then derive_timestamp rt normalized else normalized)
      in filter (\<lambda>(k, v). k \<in> set EXPECTED_HEADERS) normalized')"

text \<open>
  What reading the file gives \<open>iter_csv_rows\<close> (its first part, through polars or the
  \<open>csv\<close> module): nothing at all when the file has no header line, else the sanitized
  headers and one dictionary per data line.
\<close>

datatype csv_read = No_header | Table "pystr list" "pydict list"

record header_report =
  headers :: "pystr list"
  normalized_headers :: "pystr list"
  extra_columns :: "pystr list"
  missing_core :: "pystr list"

definition rename_target :: "pystr \<Rightarrow> pystr \<Rightarrow> pystr" where
  "rename_target from v = (if v = from then str ''timestamp'' else v)"

text \<open>
  \<open>column_map\<close>, the dictionary \<open>{h: normalize_column_name(h) for h in headers}\<close>: a
  repeated header has the same value at each of its entries.
\<close>

definition build_column_map :: "runtime \<Rightarrow> pystr list \<Rightarrow> (pystr \<times> pystr) list" where
  "build_column_map rt hs = map (\<lambda>h. (h, normalize_column_name rt h)) hs"

definition derive_flag :: "pystr list \<Rightarrow> bool" where
  "derive_flag nhs =
     (str ''timestamp'' \<notin> set nhs \<and> (str ''date'' \<in> set nhs \<and> str ''time'' \<in> set nhs))"

definition effective_column_map :: "runtime \<Rightarrow> pystr list \<Rightarrow> (pystr \<times> pystr) list" where
  "effective_column_map rt hs =
     (let nhs = map (normalize_column_name rt) hs;
          has_timestamp = str ''timestamp'' \<in> set nhs;
          has_date = str ''date'' \<in> set nhs;
          has_time = str ''time'' \<in> set nhs;
          column_map = build_column_map rt hs
      in if \<not> has_timestamp \<and> has_date \<and> \<not> has_time
           then map (\<lambda>(k, v). (k, rename_target (str ''date'') v)) column_map
         else if \<not> has_timestamp \<and> has_time \<and> \<not> has_date
           then map (\<lambda>(k, v). (k, rename_target (str ''time'') v)) column_map
         else column_map)"

definition effective_header_set :: "runtime \<Rightarrow> pystr list \<Rightarrow> pystr list" where
  "effective_header_set rt hs =
     (let nhs = map (normalize_column_name rt) hs;
          has_timestamp = str ''timestamp'' \<in> set nhs;
          has_date = str ''date'' \<in> set nhs;
          has_time = str ''time'' \<in> set nhs;
          nhs' =
            (if \<not> has_timestamp \<and> has_date \<and> \<not> has_time
               then map (rename_target (str ''date'')) nhs
             else if \<not> has_timestamp \<and> has_time \<and> \<not> has_date
               then map (rename_target (str ''time'')) nhs
             else nhs);
          s = remdups nhs'
      in if derive_flag nhs
           then filter (\<lambda>h. h \<noteq> str ''time'')
                  (filter (\<lambda>h. h \<noteq> str ''date'') (List.insert (str ''timestamp'') s))
         else s)"

definition iter_csv_rows :: "runtime \<Rightarrow> csv_read \<Rightarrow> pydict list \<times> header_report" where
  "iter_csv_rows rt f =
     (case f of
        No_header \<Rightarrow>
          ([], \<lparr>headers = [], normalized_headers = [], extra_columns = [],
                 missing_core = CORE_HEADERS\<rparr>)
      | Table hs rows \<Rightarrow>
          (let nhs = map (normalize_column_name rt) hs;
               column_map = effective_column_map rt hs;
               normalized_rows = map (\<lambda>row. normalize_row rt row column_map (derive_flag nhs)) rows;
               eff = effective_header_set rt hs
           in (normalized_rows,
               \<lparr>headers = hs,
                normalized_headers = sort eff,
                extra_columns = sort (filter (\<lambda>c. c \<notin> set EXPECTED_HEADERS) eff),
                missing_core = sort (filter (\<lambda>c. c \<notin> set eff) CORE_HEADERS)\<rparr>)))"

section \<open>The merge rule, as the specification words it\<close>

text \<open>A value is blank when it is \<open>None\<close> or a string of white space only.\<close>

definition is_blank :: "pyval \<Rightarrow> bool" where
  "is_blank v = (case v of PyNone \<Rightarrow> True | PyStr s \<Rightarrow> py_strip s = [] | _ \<Rightarrow> False)"

text \<open>The values of the source columns that go to one target key, in column order.\<close>

definition source_values :: "runtime \<Rightarrow> (pystr \<times> pystr) list \<Rightarrow> pydict \<Rightarrow> pystr \<Rightarrow> pyval list" where
  "source_values rt column_map row t =
     map snd (filter (\<lambda>(k, v). target_key rt column_map k = t) row)"

text \<open>What the loop leaves for a target after its source values, starting from \<open>e\<close>.\<close>

definition merged_cell :: "pyval \<Rightarrow> pyval list \<Rightarrow> pyval" where
  "merged_cell e vs = fold (\<lambda>v existing. choose_value existing v) vs e"


section \<open>shared.py: the field validators of RawEvent\<close>

datatype EventName =
    page_viewed | purchase | checkout_started | checkout_completed
  | product_added_to_cart | email_filled_on_popup

fun EventName_value :: "EventName \<Rightarrow> pystr" where
  "EventName_value page_viewed = str ''page_viewed''"
| "EventName_value purchase = str ''purchase''"
| "EventName_value checkout_started = str ''checkout_started''"
| "EventName_value checkout_completed = str ''checkout_completed''"
| "EventName_value product_added_to_cart = str ''product_added_to_cart''"
| "EventName_value email_filled_on_popup = str ''email_filled_on_popup''"

record RawEvent =
  client_id :: pystr
  timestamp :: datetime
  event_name :: EventName
  event_data :: pydict
  page_url :: pystr
  referrer :: "pystr option"
  user_agent :: pystr

text \<open>\<open>candidate.replace(" ", "T", 1)\<close>.\<close>

fun replace_first_space :: "pystr \<Rightarrow> pystr" where
  "replace_first_space [] = []"
| "replace_first_space (c # cs) = (if c = 32 then 84 # cs else c # replace_first_space cs)"

text \<open>The string handed to \<open>datetime.fromisoformat\<close>.\<close>

definition iso_candidate :: "pystr \<Rightarrow> pystr" where
  "iso_candidate raw =
     (let candidate =
            (if 32 \<in> set raw \<and> 84 \<notin> set raw then replace_first_space raw else raw)
      in if candidate \<noteq> [] \<and> last candidate = 90
           then butlast candidate @ str ''+00:00'' else candidate)"

text \<open>
  \<open>isinstance(value, (int, float))\<close> and \<open>isinstance(value, bool)\<close>: \<open>bool\<close> is a
  subclass of \<open>int\<close>, so the first test holds for a boolean too.
\<close>

fun isinstance_int_float :: "pyval \<Rightarrow> bool" where
  "isinstance_int_float (PyBool b) = True"
| "isinstance_int_float (PyInt i) = True"
| "isinstance_int_float (PyFloat f) = True"
| "isinstance_int_float v = False"

fun isinstance_bool :: "pyval \<Rightarrow> bool" where
  "isinstance_bool (PyBool b) = True"
| "isinstance_bool v = False"

text \<open>Line 73: the unit of a numeric timestamp.\<close>

definition timestamp_unit :: "pyval \<Rightarrow> epoch_unit" where
  "timestamp_unit v = (if py_gt_int v 10000000000 then Milliseconds else Seconds)"

text \<open>
  \<open>RawEvent.normalize_timestamp\<close>, with the tests in the order of the source: \<open>None\<close>,
  \<open>datetime\<close>, \<open>str\<close>, \<open>(int, float)\<close>, \<open>bool\<close>, and last any other value, returned as
  it is.
\<close>

definition normalize_timestamp :: "runtime \<Rightarrow> pyval \<Rightarrow> pyval outcome" where
  "normalize_timestamp rt v =
     (case v of
        PyNone \<Rightarrow> ValueError (str ''timestamp is null'')
      | PyDatetime d \<Rightarrow> Returns v
      | PyStr s \<Rightarrow>
          (let raw = py_strip s
           in if raw = [] then ValueError (str ''timestamp is empty'')
              else case fromisoformat rt (iso_candidate raw) of
                     Some d \<Rightarrow> Returns (PyDatetime d)
                   | None \<Rightarrow>
                       (case pd rt of
                          None \<Rightarrow> ValueError (str ''timestamp is not a valid datetime'')
                        | Some p \<Rightarrow> map_outcome PyDatetime (to_datetime_str p raw)))
      | _ \<Rightarrow>
          if isinstance_int_float v then
            (case pd rt of
               None \<Rightarrow> ValueError (str ''timestamp numeric provided but pandas unavailable'')
             | Some p \<Rightarrow> map_outcome PyDatetime (to_datetime_unit p v (timestamp_unit v)))
          else if isinstance_bool v then ValueError (str ''timestamp is not a valid datetime'')
          else Returns v)"

definition non_empty_string :: "runtime \<Rightarrow> pyval \<Rightarrow> pystr outcome" where
  "non_empty_string rt v =
     (if v = PyNone then ValueError (str ''required field is null'')
      else let s = py_strip (case v of PyStr s \<Rightarrow> s | _ \<Rightarrow> py_format rt v)
           in if s = [] then ValueError (str ''required field is empty'') else Returns s)"

definition parse_event_data :: "runtime \<Rightarrow> pyval \<Rightarrow> pydict outcome" where
  "parse_event_data rt v =
     (case v of
        PyNone \<Rightarrow> Returns []
      | PyDict d \<Rightarrow> Returns d
      | PyStr s \<Rightarrow>
          (let raw = py_strip s
           in if raw = [] then Returns []
              else if py_lower rt raw = str ''null'' then Returns []
              else case json_loads rt raw of
                     Inl m \<Rightarrow> ValueError (str ''event_data is not valid JSON: '' @ m)
                   | Inr parsed \<Rightarrow>
                       (case parsed of
                          PyDict d \<Rightarrow> Returns d
                        | _ \<Rightarrow> ValueError (str ''event_data JSON must be an object'')))
      | _ \<Rightarrow> ValueError (str ''event_data must be a JSON string or dict''))"

definition normalize_event_name :: "runtime \<Rightarrow> pyval \<Rightarrow> pyval" where
  "normalize_event_name rt v = (case v of PyStr s \<Rightarrow> PyStr (py_lower rt (py_strip s)) | _ \<Rightarrow> v)"


section \<open>RawEvent.model_validate\<close>

text \<open>
  pydantic validates the fields of a model in the order of their declaration and collects
  one error per failing field, with the field's name as the location. A missing key is
  the error \<open>Field required\<close>; a \<open>ValueError\<close> of a field validator becomes the message
  \<open>Value error, \<close> followed by the text of the exception; an exception of another type
  leaves \<open>model_validate\<close>.
\<close>

datatype 'a field_result = Field_ok 'a | Field_error pystr | Field_raise

fun of_validator :: "'a outcome \<Rightarrow> 'a field_result" where
  "of_validator (Returns x) = Field_ok x"
| "of_validator (ValueError m) = Field_error (str ''Value error, '' @ m)"
| "of_validator OtherException = Field_raise"

text \<open>
  A \<open>str\<close> field with the validator \<open>non_empty_string\<close> after it: the type is checked
  first, and only a string passes.
\<close>

definition validate_required_str :: "runtime \<Rightarrow> pyval option \<Rightarrow> pystr field_result" where
  "validate_required_str rt input =
     (case input of
        None \<Rightarrow> Field_error (str ''Field required'')
      | Some (PyStr s) \<Rightarrow> of_validator (non_empty_string rt (PyStr s))
      | Some _ \<Rightarrow> Field_error (str ''Input should be a valid string''))"

text \<open>
  The \<open>timestamp\<close> field: \<open>normalize_timestamp\<close> runs before the type check, which
  accepts the datetime it returns; what it returns unchanged (a dictionary or a list) is
  no datetime.
\<close>

definition validate_timestamp :: "runtime \<Rightarrow> pyval option \<Rightarrow> datetime field_result" where
  "validate_timestamp rt input =
     (case input of
        None \<Rightarrow> Field_error (str ''Field required'')
      | Some v \<Rightarrow>
          (case of_validator (normalize_timestamp rt v) of
             Field_ok (PyDatetime d) \<Rightarrow> Field_ok d
           | Field_ok _ \<Rightarrow> Field_error (str ''Input should be a valid datetime'')
           | Field_error m \<Rightarrow> Field_error m
           | Field_raise \<Rightarrow> Field_raise))"

text \<open>\<open>sep.join(xs)\<close>.\<close>

fun py_join :: "pystr \<Rightarrow> pystr list \<Rightarrow> pystr" where
  "py_join sep [] = []"
| "py_join sep [x] = x"
| "py_join sep (x # y # ys) = x @ sep @ py_join sep (y # ys)"

definition EventName_members :: "EventName list" where
  "EventName_members =
     [page_viewed, purchase, checkout_started, checkout_completed, product_added_to_cart,
      email_filled_on_popup]"

text \<open>The message of the enumeration check, with each member's value in single quotes.\<close>

definition quoted :: "pystr \<Rightarrow> pystr" where
  "quoted s = 39 # s @ [39]"

definition EventName_error :: pystr where
  "EventName_error =
     str ''Input should be '' @
     py_join (str '', '') (map (quoted \<circ> EventName_value) (butlast EventName_members)) @
     str '' or '' @ quoted (EventName_value (last EventName_members))"

definition validate_event_name :: "runtime \<Rightarrow> pyval option \<Rightarrow> EventName field_result" where
  "validate_event_name rt input =
     (case input of
        None \<Rightarrow> Field_error (str ''Field required'')
      | Some v \<Rightarrow>
          (case normalize_event_name rt v of
             PyStr s \<Rightarrow>
               (case find (\<lambda>e. EventName_value e = s) EventName_members of
                  Some e \<Rightarrow> Field_ok e
                | None \<Rightarrow> Field_error EventName_error)
           | _ \<Rightarrow> Field_error EventName_error))"

text \<open>The keys of a dictionary are strings here, so \<open>dict[str, Any]\<close> accepts it.\<close>

definition validate_event_data :: "runtime \<Rightarrow> pyval option \<Rightarrow> pydict field_result" where
  "validate_event_data rt input =
     (case input of
        None \<Rightarrow> Field_error (str ''Field required'')
      | Some v \<Rightarrow> of_validator (parse_event_data rt v))"

definition validate_referrer :: "pyval option \<Rightarrow> pystr option field_result" where
  "validate_referrer input =
     (case input of
        None \<Rightarrow> Field_ok None
      | Some PyNone \<Rightarrow> Field_ok None
      | Some (PyStr s) \<Rightarrow> Field_ok (Some s)
      | Some _ \<Rightarrow> Field_error (str ''Input should be a valid string''))"

record error_detail =
  loc :: "pystr list"
  msg :: pystr

definition field_errors :: "pystr \<Rightarrow> 'a field_result \<Rightarrow> error_detail list" where
  "field_errors name r =
     (case r of Field_error m \<Rightarrow> [\<lparr>loc = [name], msg = m\<rparr>] | _ \<Rightarrow> [])"

definition field_raises :: "'a field_result \<Rightarrow> bool" where
  "field_raises r = (case r of Field_raise \<Rightarrow> True | _ \<Rightarrow> False)"

datatype validation = Valid RawEvent | Invalid "error_detail list" | Raised

definition model_validate :: "runtime \<Rightarrow> pydict \<Rightarrow> validation" where
  "model_validate rt row =
     (let c = validate_required_str rt (map_of row (str ''client_id''));
          t = validate_timestamp rt (map_of row (str ''timestamp''));
          n = validate_event_name rt (map_of row (str ''event_name''));
          d = validate_event_data rt (map_of row (str ''event_data''));
          p = validate_required_str rt (map_of row (str ''page_url''));
          r = validate_referrer (map_of row (str ''referrer''));
          u = validate_required_str rt (map_of row (str ''user_agent''));
          errors =
            field_errors (str ''client_id'') c @ field_errors (str ''timestamp'') t @
            field_errors (str ''event_name'') n @ field_errors (str ''event_data'') d @
            field_errors (str ''page_url'') p @ field_errors (str ''referrer'') r @
            field_errors (str ''user_agent'') u
      in if field_raises c \<or> field_raises t \<or> field_raises n \<or> field_raises d \<or>
            field_raises p \<or> field_raises r \<or> field_raises u
           then Raised
         else case (c, t, n, d, p, r, u) of
                (Field_ok c', Field_ok t', Field_ok n', Field_ok d', Field_ok p', Field_ok r',
                 Field_ok u') \<Rightarrow>
                  Valid \<lparr>client_id = c', timestamp = t', event_name = n', event_data = d',
                         page_url = p', referrer = r', user_agent = u'\<rparr>
              | _ \<Rightarrow> Invalid errors)"

section \<open>ingest.py and validator.py\<close>

text \<open>The body of the loop over \<open>exc.errors()\<close>: the summary of one error.\<close>

definition summarize :: "error_detail \<Rightarrow> pystr" where
  "summarize err =
     (let l = py_join (str ''.'') (loc err)
      in if l \<noteq> [] then l @ str '': '' @ msg err else msg err)"

text \<open>The quarantine row of a rejected row: its canonical fields and \<open>error_reason\<close>.\<close>

definition failure_row :: "pydict \<Rightarrow> error_detail list \<Rightarrow> pydict" where
  "failure_row row errors =
     map (\<lambda>k. (k, dict_get row k)) EXPECTED_HEADERS @
     [(str ''error_reason'', PyStr (py_join (str '' | '') (map summarize errors)))]"

text \<open>
  The record of an accepted row: \<open>model_dump()\<close> with the event name as its string and
  the event data as compact JSON text.
\<close>

definition valid_record :: "runtime \<Rightarrow> RawEvent \<Rightarrow> pydict" where
  "valid_record rt m =
     [(str ''client_id'', PyStr (client_id m)),
      (str ''timestamp'', PyDatetime (timestamp m)),
      (str ''event_name'', PyStr (EventName_value (event_name m))),
      (str ''event_data'', PyStr (json_dumps rt (event_data m))),
      (str ''page_url'', PyStr (page_url m)),
      (str ''referrer'', (case referrer m of None \<Rightarrow> PyNone | Some s \<Rightarrow> PyStr s)),
      (str ''user_agent'', PyStr (user_agent m))]"

datatype failure = ValidatorRaised | PandasMissing

text \<open>
  The loop over the rows of a file, from the lists gathered so far: the valid records and
  the quarantine rows, each in the order of the rows. An exception that is not a
  validation error ends it.
\<close>

fun validate_rows :: "runtime \<Rightarrow> pydict list \<Rightarrow> pydict list \<Rightarrow> pydict list
    \<Rightarrow> failure + (pydict list \<times> pydict list)" where
  "validate_rows rt valid_rows quarantine_rows [] = Inr (valid_rows, quarantine_rows)"
| "validate_rows rt valid_rows quarantine_rows (row # rows) =
     (case model_validate rt row of
        Raised \<Rightarrow> Inl ValidatorRaised
      | Valid m \<Rightarrow> validate_rows rt (valid_rows @ [valid_record rt m]) quarantine_rows rows
      | Invalid errors \<Rightarrow>
          validate_rows rt valid_rows (quarantine_rows @ [failure_row row errors]) rows)"

record run_log_entry =
  filename :: pystr
  rows_read :: nat
  rows_inserted :: nat
  rows_quarantined :: nat
  status :: pystr

text \<open>
  What processing one file leaves: the batch inserted into \<open>raw_events\<close>, the quarantine
  file (\<open>None\<close> when none is written) and the entry of \<open>pipeline_logs\<close>; the clock value
  of the entry is left out. The database calls are taken to succeed.
\<close>

record file_outcome =
  inserted :: "pydict list"
  quarantine_file :: "pydict list option"
  log_entry :: run_log_entry

definition run_status :: "nat \<Rightarrow> nat \<Rightarrow> pystr" where
  "run_status quarantined ins =
     (if quarantined \<noteq> 0 \<and> ins \<noteq> 0 then str ''partial_failure''
      else if quarantined \<noteq> 0 \<and> \<not> ins \<noteq> 0 then str ''FAILED''
      else str ''COMPLETED'')"

definition ingest_file :: "runtime \<Rightarrow> pystr \<times> csv_read \<Rightarrow> failure + file_outcome" where
  "ingest_file rt f =
     (let rows = fst (iter_csv_rows rt (snd f))
      in case validate_rows rt [] [] rows of
           Inl e \<Rightarrow> Inl e
         | Inr (valid_rows, quarantine_rows) \<Rightarrow>
             if valid_rows \<noteq> [] \<and> pd rt = None then Inl PandasMissing
             else
               (let ins = (if valid_rows \<noteq> [] then length valid_rows else 0);
                    quarantined = length quarantine_rows
                in Inr \<lparr>inserted = valid_rows,
                        quarantine_file =
                          (if quarantine_rows \<noteq> [] then Some quarantine_rows else None),
                        log_entry =
                          \<lparr>filename = fst f, rows_read = length rows, rows_inserted = ins,
                           rows_quarantined = quarantined,
                           status = run_status quarantined ins\<rparr>\<rparr>))"

text \<open>\<open>main\<close> of ingest.py over the sorted files: the outcomes and the value it returns.\<close>

fun ingest_files :: "runtime \<Rightarrow> (pystr \<times> csv_read) list \<Rightarrow> failure + file_outcome list" where
  "ingest_files rt [] = Inr []"
| "ingest_files rt (f # fs) =
     (case ingest_file rt f of
        Inl e \<Rightarrow> Inl e
      | Inr out \<Rightarrow>
          (case ingest_files rt fs of Inl e \<Rightarrow> Inl e | Inr outs \<Rightarrow> Inr (out # outs)))"

definition ingest_main :: "runtime \<Rightarrow> (pystr \<times> csv_read) list \<Rightarrow> failure + (file_outcome list \<times> int)" where
  "ingest_main rt csv_files =
     (case ingest_files rt csv_files of Inl e \<Rightarrow> Inl e | Inr outs \<Rightarrow> Inr (outs, 0))"

text \<open>
  \<open>main\<close> of validator.py: the counters \<open>passed\<close> and \<open>failed\<close> over all rows of all files,
  and the value it returns, which \<open>SystemExit\<close> makes the exit status of the process. The
  printed summary is left out.
\<close>

record dry_run =
  passed :: nat
  failed :: nat
  exit_status :: int

fun count_rows :: "runtime \<Rightarrow> nat \<times> nat \<Rightarrow> pydict list \<Rightarrow> failure + (nat \<times> nat)" where
  "count_rows rt (p, f) [] = Inr (p, f)"
| "count_rows rt (p, f) (row # rows) =
     (case model_validate rt row of
        Raised \<Rightarrow> Inl ValidatorRaised
      | Valid m \<Rightarrow> count_rows rt (p + 1, f) rows
      | Invalid errors \<Rightarrow> count_rows rt (p, f + 1) rows)"

fun count_files :: "runtime \<Rightarrow> nat \<times> nat \<Rightarrow> (pystr \<times> csv_read) list \<Rightarrow> failure + (nat \<times> nat)" where
  "count_files rt pf [] = Inr pf"
| "count_files rt pf (f # fs) =
     (case count_rows rt pf (fst (iter_csv_rows rt (snd f))) of
        Inl e \<Rightarrow> Inl e
      | Inr pf' \<Rightarrow> count_files rt pf' fs)"

definition validator_main :: "runtime \<Rightarrow> (pystr \<times> csv_read) list \<Rightarrow> failure + dry_run" where
  "validator_main rt csv_files =
     (case count_files rt (0, 0) csv_files of
        Inl e \<Rightarrow> Inl e
      | Inr (p, f) \<Rightarrow> Inr \<lparr>passed = p, failed = f, exit_status = 0\<rparr>)"


text \<open>The merged value of a target in a row: what the loop leaves, starting from nothing.\<close>

definition merged_source :: "runtime \<Rightarrow> (pystr \<times> pystr) list \<Rightarrow> pydict \<Rightarrow> pystr \<Rightarrow> pyval" where
  "merged_source rt column_map row t = merged_cell PyNone (source_values rt column_map row t)"

text \<open>
  The known aliases as the specification lists them, each spelling with its canonical
  name; a casing variant of a spelling differs from it in the case of ASCII letters only,
  and a spacing variant has white space (or byte-order marks) around it.
\<close>

definition column_aliases :: "(pystr \<times> pystr) list" where
  "column_aliases =
     [(str ''clientId'', str ''client_id''), (str ''client_id'', str ''client_id''),
      (str ''eventName'', str ''event_name''), (str ''event_name'', str ''event_name''),
      (str ''eventData'', str ''event_data''), (str ''event_data'', str ''event_data''),
      (str ''pageUrl'', str ''page_url''), (str ''page_url'', str ''page_url''),
      (str ''userAgent'', str ''user_agent''), (str ''user_agent'', str ''user_agent''),
      (str ''referrer'', str ''referrer''), (str ''timestamp'', str ''timestamp''),
      (str ''date'', str ''date''), (str ''time'', str ''time'')]"

definition is_padding :: "nat \<Rightarrow> bool" where
  "is_padding c = (is_space c \<or> c = BOM)"

text \<open>The canonical column names that \<open>normalize_column_name\<close> returns for an alias.\<close>

definition canonical_names :: "pystr list" where
  "canonical_names =
     [str ''client_id'', str ''event_name'', str ''event_data'', str ''page_url'',
      str ''user_agent'', str ''referrer'', str ''timestamp'', str ''date'', str ''time'']"


section \<open>A small instance of the libraries\<close>

text \<open>
  The model is evaluated on concrete inputs with this instance: an ISO parser that knows
  one timestamp, a JSON parser that knows the empty object and the empty array, and an
  epoch conversion for integers, with a point in time written as its milliseconds since
  the epoch.
\<close>

definition example_pandas :: pandas where
  "example_pandas =
     \<lparr>to_datetime_str = (\<lambda>s. ValueError (str ''Unknown datetime string format'')),
      to_datetime_unit =
        (\<lambda>v u. case v of
                  PyInt i \<Rightarrow> Returns (Datetime (case u of Seconds \<Rightarrow> i * 1000 | Milliseconds \<Rightarrow> i))
                | _ \<Rightarrow> OtherException)\<rparr>"

definition example_runtime :: runtime where
  "example_runtime =
     \<lparr>pd = Some example_pandas,
      fromisoformat =
        (\<lambda>s. if s = str ''2024-01-01T10:00:00'' then Some (Datetime 1704103200000) else None),
      json_loads =
        (\<lambda>s. if s = str ''{}'' then Inr (PyDict [])
             else if s = str ''[]'' then Inr (PyList [])
             else Inl (str ''Expecting value'')),
      json_dumps = (\<lambda>d. str ''{}''),
      unicode_lower = (\<lambda>s. s),
      py_format = (\<lambda>v. [])\<rparr>"

text \<open>
  A file with the one header \<open>clientId\<close> and one data line, whose client id is a
  single space: the row fails on the client id and on the five other required fields.
\<close>

definition example_file :: "pystr \<times> csv_read" where
  "example_file =
     (str ''events.csv'', Table [str ''clientId''] [[(str ''clientId'', PyStr (str '' ''))]])"

text \<open>The errors of that row, one per failing field, in the order of the fields.\<close>

definition example_errors :: "error_detail list" where
  "example_errors =
     [\<lparr>loc = [str ''client_id''], msg = str ''Value error, required field is empty''\<rparr>,
      \<lparr>loc = [str ''timestamp''], msg = str ''Field required''\<rparr>,
      \<lparr>loc = [str ''event_name''], msg = str ''Field required''\<rparr>,
      \<lparr>loc = [str ''event_data''], msg = str ''Field required''\<rparr>,
      \<lparr>loc = [str ''page_url''], msg = str ''Field required''\<rparr>,
      \<lparr>loc = [str ''user_agent''], msg = str ''Field required''\<rparr>]"

text \<open>What \<open>ingest.py\<close> leaves for that file.\<close>

definition example_outcome :: file_outcome where
  "example_outcome =
     \<lparr>inserted = [],
      quarantine_file = Some [failure_row [(str ''client_id'', PyStr (str '' ''))] example_errors],
      log_entry =
        \<lparr>filename = str ''events.csv'', rows_read = 1, rows_inserted = 0, rows_quarantined = 1,
         status = str ''FAILED''\<rparr>\<rparr>"

text \<open>A normalized row that passes validation, with no referrer.\<close>

definition example_good_row :: pydict where
  "example_good_row =
     [(str ''client_id'', PyStr (str ''c1'')),
      (str ''timestamp'', PyStr (str ''2024-01-01 10:00:00'')),
      (str ''event_name'', PyStr (str '' Purchase '')),
      (str ''event_data'', PyStr (str ''{}'')),
      (str ''page_url'', PyStr (str ''c1'')),
      (str ''user_agent'', PyStr (str ''c1''))]"


section \<open>Dictionaries\<close>

lemma map_of_dict_set: "map_of (dict_set d k v) k' = (if k' = k then Some v else map_of d k')"
  by (induction d k v rule: dict_set.induct) auto

lemma dict_get_dict_set: "dict_get (dict_set d k v) k' = (if k' = k then v else dict_get d k')"
  by (simp add: dict_get_def map_of_dict_set)

lemma keys_dict_set: "fst ` set (dict_set d k v) = insert k (fst ` set d)"
  by (induction d k v rule: dict_set.induct) auto

lemma merge_columns_lookup:
  "map_of (merge_columns rt cm acc row) t =
     (if source_values rt cm row t = [] then map_of acc t
      else Some (merged_cell (dict_get acc t) (source_values rt cm row t)))"
proof (induction row arbitrary: acc)
  case Nil
  show ?case by (simp add: source_values_def)
next
  case (Cons p row)
  obtain k v where p: "p = (k, v)" by (cases p)
  show ?case
    unfolding p
    by (simp add: Cons.IH source_values_def merged_cell_def map_of_dict_set dict_get_dict_set
        Let_def dict_get_def)
qed

lemma merged_cell_not_blank: "\<not> is_blank e \<Longrightarrow> merged_cell e vs = e"
  by (induction vs) (auto simp: merged_cell_def choose_value_def is_blank_def split: pyval.splits)

lemma merged_cell_blank:
  "is_blank e \<Longrightarrow> vs \<noteq> [] \<Longrightarrow>
   merged_cell e vs = (case find (\<lambda>v. \<not> is_blank v) vs of Some w \<Rightarrow> w | None \<Rightarrow> last vs)"
proof (induction vs arbitrary: e)
  case Nil
  then show ?case by simp
next
  case (Cons v vs)
  note IH = Cons.IH
  have step: "merged_cell e (v # vs) = merged_cell v vs"
    using Cons.prems(1)
    by (auto simp: merged_cell_def choose_value_def is_blank_def split: pyval.splits)
  show ?case
  proof (cases "is_blank v")
    case False
    then show ?thesis by (simp add: step merged_cell_not_blank)
  next
    case True
    show ?thesis
    proof (cases "vs = []")
      case empty: True
      show ?thesis unfolding step using True empty by (simp add: merged_cell_def)
    next
      case False
      from IH[OF True False] show ?thesis unfolding step using True False by (simp split: option.splits)
    qed
  qed
qed


lemma map_of_filter_keys:
  "map_of (filter (\<lambda>(k, v). k \<in> S) d) t = (if t \<in> S then map_of d t else None)"
  by (induction d) auto

lemma derive_timestamp_other:
  "t \<noteq> str ''timestamp'' \<Longrightarrow> map_of (derive_timestamp rt d) t = map_of d t"
  by (simp add: derive_timestamp_def Let_def map_of_dict_set)

lemma normalize_row_keeps:
  assumes "map_of (merge_columns rt cm [] row) t = Some w" and "t \<in> set EXPECTED_HEADERS"
  shows "map_of (normalize_row rt row cm flag) t = Some w"
proof (cases "t = str ''timestamp''")
  case True
  from assms(1) have "t \<in> fst ` set (merge_columns rt cm [] row)"
    by (metis domI dom_map_of_conv_image_fst)
  with True assms show ?thesis
    by (simp add: normalize_row_def Let_def map_of_filter_keys)
next
  case False
  with assms show ?thesis
    by (simp add: normalize_row_def Let_def map_of_filter_keys derive_timestamp_other)
qed

lemma merge_columns_from_empty:
  assumes "source_values rt cm row t \<noteq> []"
  shows "map_of (merge_columns rt cm [] row) t =
         Some (case find (\<lambda>v. \<not> is_blank v) (source_values rt cm row t) of
                 Some w \<Rightarrow> w | None \<Rightarrow> last (source_values rt cm row t))"
proof -
  have "is_blank (dict_get [] t)" by (simp add: dict_get_def is_blank_def)
  from merged_cell_blank[OF this assms] show ?thesis
    using assms by (simp add: merge_columns_lookup)
qed

lemma str_simps: "str [] = []" "str (c # cs) = of_char c # str cs"
  by (simp_all add: str_def)

lemmas eval_defs = str_simps is_space_def py_strip_def ascii_lower_def is_ascii_def py_lower_def
  sanitize_header_def normalize_column_name_def BOM_def target_key_def EXPECTED_HEADERS_def
  build_column_map_def dict_get_def choose_value_def Let_def

lemma keys_merge_columns:
  "fst ` set (merge_columns rt cm acc row) = fst ` set acc \<union> target_key rt cm ` fst ` set row"
proof (induction row arbitrary: acc)
  case Nil
  show ?case by simp
next
  case (Cons p row)
  obtain k v where p: "p = (k, v)" by (cases p)
  show ?case
    unfolding p by (simp add: Cons.IH keys_dict_set Let_def Un_commute insert_commute)
qed

lemma target_key_build: "target_key rt (build_column_map rt hs) k = normalize_column_name rt k"
proof (cases "k \<in> set hs")
  case True
  then have "map_of (build_column_map rt hs) k = Some (normalize_column_name rt k)"
    unfolding build_column_map_def by (induction hs) auto
  then show ?thesis by (simp add: target_key_def)
next
  case False
  then have "map_of (build_column_map rt hs) k = None"
    unfolding build_column_map_def by (induction hs) auto
  then show ?thesis by (simp add: target_key_def)
qed

lemma dict_get_merge_columns:
  "dict_get (merge_columns rt cm [] row) t = merged_source rt cm row t"
  by (simp add: dict_get_def merge_columns_lookup merged_source_def merged_cell_def)

lemma effective_column_map_derive:
  "derive_flag (map (normalize_column_name rt) hs) \<Longrightarrow>
   effective_column_map rt hs = build_column_map rt hs"
  by (auto simp: derive_flag_def effective_column_map_def Let_def)

lemma effective_header_set_derive:
  assumes "derive_flag (map (normalize_column_name rt) hs)"
  shows "set (effective_header_set rt hs) =
         insert (str ''timestamp'')
           (normalize_column_name rt ` set hs) - {str ''date'', str ''time''}"
  using assms by (auto simp: derive_flag_def effective_header_set_def Let_def)

lemma timestamp_not_date_time: "str ''timestamp'' \<noteq> str ''date''" "str ''timestamp'' \<noteq> str ''time''"
  by (simp_all add: str_simps)

lemma derive_timestamp_both:
  assumes "py_truthy (dict_get d (str ''date''))" "py_truthy (dict_get d (str ''time''))"
  shows "map_of (derive_timestamp rt d) (str ''timestamp'') =
         Some (PyStr (format_value rt (dict_get d (str ''date'')) @ str '' '' @
                      format_value rt (dict_get d (str ''time''))))"
  using assms by (simp add: derive_timestamp_def Let_def map_of_dict_set)

lemma normalize_row_derived:
  assumes keys: "normalize_column_name rt ` fst ` set row \<subseteq> normalize_column_name rt ` set hs"
    and nots: "str ''timestamp'' \<notin> normalize_column_name rt ` set hs"
    and d: "py_truthy (merged_source rt (build_column_map rt hs) row (str ''date''))"
    and t: "py_truthy (merged_source rt (build_column_map rt hs) row (str ''time''))"
  shows "map_of (normalize_row rt row (build_column_map rt hs) True) (str ''timestamp'') =
         Some (PyStr (format_value rt (merged_source rt (build_column_map rt hs) row (str ''date''))
                      @ str '' '' @
                      format_value rt (merged_source rt (build_column_map rt hs) row (str ''time''))))"
proof -
  let ?m = "merge_columns rt (build_column_map rt hs) [] row"
  have km: "fst ` set ?m = normalize_column_name rt ` fst ` set row"
    by (simp add: keys_merge_columns target_key_build[abs_def] image_image)
  from keys nots have "str ''timestamp'' \<notin> normalize_column_name rt ` fst ` set row"
    by (meson subsetD)
  then have absent: "str ''timestamp'' \<notin> fst ` set ?m"
    unfolding km .
  have e: "str ''timestamp'' \<in> set EXPECTED_HEADERS" by (simp add: EXPECTED_HEADERS_def)
  from d t have "map_of (derive_timestamp rt ?m) (str ''timestamp'') =
     Some (PyStr (format_value rt (dict_get ?m (str ''date'')) @ str '' '' @
                      format_value rt (dict_get ?m (str ''time''))))"
    by (intro derive_timestamp_both) (simp_all add: dict_get_merge_columns)
  then show ?thesis
    using absent e
    by (simp add: normalize_row_def Let_def map_of_filter_keys dict_get_merge_columns)
qed

section \<open>Stripping and header names\<close>

lemma py_strip_core:
  assumes "list_all is_space pre" "list_all is_space post"
    and "v \<noteq> []" "\<not> is_space (hd v)" "\<not> is_space (last v)"
  shows "py_strip (pre @ v @ post) = v"
proof -
  from assms(3) obtain x xs where v: "v = x # xs" by (cases v) auto
  from assms(1) have "dropWhile is_space (pre @ v @ post) = dropWhile is_space (v @ post)"
    by (simp add: dropWhile_append2 list_all_iff)
  also have "\<dots> = v @ post" using assms(4) by (simp add: v)
  finally have 1: "dropWhile is_space (pre @ v @ post) = v @ post" .
  from assms(3) obtain y ys where rv: "rev v = y # ys" by (cases "rev v") auto
  then have "y = last v" using assms(3) by (metis last_rev list.sel(1) rev_rev_ident hd_rev)
  with assms(5) have ny: "\<not> is_space y" by simp
  have "dropWhile is_space (rev (v @ post)) = dropWhile is_space (rev post @ rev v)" by simp
  also have "\<dots> = dropWhile is_space (rev v)"
    using assms(2) by (intro dropWhile_append2) (simp add: list_all_iff)
  also have "\<dots> = rev v" using ny by (simp add: rv)
  finally show ?thesis by (simp add: py_strip_def 1)
qed

lemma py_strip_ends:
  "py_strip s = [] \<or> (\<not> is_space (hd (py_strip s)) \<and> \<not> is_space (last (py_strip s)))"
proof -
  let ?a = "dropWhile is_space s"
  let ?b = "dropWhile is_space (rev ?a)"
  show ?thesis
  proof (cases "?b = []")
    case True
    then show ?thesis by (simp add: py_strip_def)
  next
    case False
    then have hb: "\<not> is_space (hd ?b)" by (metis hd_dropWhile)
    have an: "?a \<noteq> []"
    proof
      assume a: "?a = []"
      have "?b = []" unfolding a by simp
      with False show False by blast
    qed
    then have ha: "\<not> is_space (hd ?a)" by (metis hd_dropWhile)
    obtain zs where "rev ?a = zs @ ?b"
      by (metis takeWhile_dropWhile_id)
    then have "last ?b = last (rev ?a)" by (metis False last_appendR)
    also have "\<dots> = hd ?a" by (metis an last_rev)
    finally have lb: "\<not> is_space (last ?b)" using ha by metis
    have "hd (rev ?b) = last ?b" "last (rev ?b) = hd ?b"
      by (metis False hd_rev, metis False last_rev)
    with hb lb have "\<not> is_space (hd (rev ?b)) \<and> \<not> is_space (last (rev ?b))" by metis
    then show ?thesis unfolding py_strip_def by blast
  qed
qed

lemma py_strip_idem: "py_strip (py_strip s) = py_strip s"
proof (cases "py_strip s = []")
  case True
  have "py_strip [] = []" by (simp add: py_strip_def)
  with True show ?thesis by metis
next
  case False
  with py_strip_ends[of s] have "\<not> is_space (hd (py_strip s))" "\<not> is_space (last (py_strip s))"
    by auto
  from py_strip_core[of "[]" "[]" "py_strip s", OF _ _ False this] show ?thesis by simp
qed

lemma set_py_strip: "set (py_strip s) \<subseteq> set s"
proof
  fix x assume "x \<in> set (py_strip s)"
  then have "x \<in> set (dropWhile is_space (rev (dropWhile is_space s)))"
    by (simp add: py_strip_def)
  then have "x \<in> set (rev (dropWhile is_space s))" by (rule set_dropWhileD)
  then have "x \<in> set (dropWhile is_space s)" by simp
  then show "x \<in> set s" by (rule set_dropWhileD)
qed

lemma sanitize_header_idem:
  "sanitize_header rt (PyStr (sanitize_header rt (PyStr n))) = sanitize_header rt (PyStr n)"
proof -
  let ?f = "filter (\<lambda>c. c \<noteq> BOM) n"
  have "BOM \<notin> set (py_strip ?f)" using set_py_strip[of ?f] by auto
  then have "filter (\<lambda>c. c \<noteq> BOM) (py_strip ?f) = py_strip ?f"
    by (simp add: filter_id_conv) metis
  then show ?thesis by (simp add: sanitize_header_def py_strip_idem)
qed


lemma normalize_column_name_same_raw:
  "sanitize_header rt (PyStr a) = sanitize_header rt (PyStr b) \<Longrightarrow>
   normalize_column_name rt a = normalize_column_name rt b"
  by (simp add: normalize_column_name_def)

lemma normalize_column_name_cases:
  "normalize_column_name rt n \<in> set canonical_names \<or>
   normalize_column_name rt n = sanitize_header rt (PyStr n)"
  unfolding normalize_column_name_def Let_def canonical_names_def
  by (simp only: list.set insert_iff split: if_split) blast

lemma normalize_canonical:
  "c \<in> set canonical_names \<Longrightarrow> normalize_column_name rt c = c"
  unfolding canonical_names_def
  by (simp only: list.set insert_iff empty_iff, elim disjE FalseE) (simp_all add: eval_defs)

lemma normalize_column_name_idem:
  "normalize_column_name rt (normalize_column_name rt n) = normalize_column_name rt n"
proof -
  from normalize_column_name_cases[of rt n] show ?thesis
  proof
    assume "normalize_column_name rt n \<in> set canonical_names"
    then show ?thesis by (rule normalize_canonical)
  next
    assume r: "normalize_column_name rt n = sanitize_header rt (PyStr n)"
    have "normalize_column_name rt (sanitize_header rt (PyStr n)) = normalize_column_name rt n"
      by (rule normalize_column_name_same_raw) (rule sanitize_header_idem)
    then show ?thesis by (simp add: r)
  qed
qed


lemma ascii_lower_plain:
  "ascii_lower c < 128 \<Longrightarrow> \<not> is_space (ascii_lower c) \<Longrightarrow> c < 128 \<and> \<not> is_space c \<and> c \<noteq> BOM"
  by (auto simp: ascii_lower_def is_space_def BOM_def split: if_splits)

lemma variant_plain:
  "list_all (\<lambda>c. c < 128 \<and> \<not> is_space c) (map ascii_lower v) \<Longrightarrow>
   list_all (\<lambda>c. c < 128 \<and> \<not> is_space c \<and> c \<noteq> BOM) v"
  by (induction v) (auto dest: ascii_lower_plain)

lemma filter_padding:
  "list_all is_padding p \<Longrightarrow> list_all is_space (filter (\<lambda>c. c \<noteq> BOM) p)"
  by (induction p) (auto simp: is_padding_def)

lemma sanitize_variant:
  assumes "list_all is_padding pre" "list_all is_padding post"
    and "v \<noteq> []" and "list_all (\<lambda>c. c < 128 \<and> \<not> is_space c) (map ascii_lower v)"
  shows "sanitize_header rt (PyStr (pre @ v @ post)) = v" and "py_lower rt v = map ascii_lower v"
proof -
  from variant_plain[OF assms(4)]
  have pl: "list_all (\<lambda>c. c < 128 \<and> \<not> is_space c \<and> c \<noteq> BOM) v" .
  then have fv: "filter (\<lambda>c. c \<noteq> BOM) v = v"
    by (induction v) auto
  from pl assms(3) have h: "\<not> is_space (hd v)" and l: "\<not> is_space (last v)"
    by (auto simp: list_all_iff)
  have "filter (\<lambda>c. c \<noteq> BOM) (pre @ v @ post)
          = filter (\<lambda>c. c \<noteq> BOM) pre @ v @ filter (\<lambda>c. c \<noteq> BOM) post"
    by (simp add: fv)
  then show "sanitize_header rt (PyStr (pre @ v @ post)) = v"
    using py_strip_core[OF filter_padding[OF assms(1)] filter_padding[OF assms(2)] assms(3) h l]
    by (simp add: sanitize_header_def)
  from pl have "is_ascii v" by (simp add: is_ascii_def list_all_iff)
  then show "py_lower rt v = map ascii_lower v" by (simp add: py_lower_def)
qed

lemma camel_case_lower:
  "raw = str ''clientId'' \<Longrightarrow> map ascii_lower raw = str ''clientid''"
  "raw = str ''eventName'' \<Longrightarrow> map ascii_lower raw = str ''eventname''"
  "raw = str ''eventData'' \<Longrightarrow> map ascii_lower raw = str ''eventdata''"
  "raw = str ''pageUrl'' \<Longrightarrow> map ascii_lower raw = str ''pageurl''"
  "raw = str ''userAgent'' \<Longrightarrow> map ascii_lower raw = str ''useragent''"
  by (simp_all add: str_simps ascii_lower_def)

lemma normalize_column_name_by_lower:
  assumes "sanitize_header rt (PyStr n) = raw" and "py_lower rt raw = map ascii_lower raw"
  shows "normalize_column_name rt n =
     (if map ascii_lower raw \<in> set [str ''clientid'', str ''client_id''] then str ''client_id''
      else if map ascii_lower raw \<in> set [str ''eventname'', str ''event_name''] then str ''event_name''
      else if map ascii_lower raw \<in> set [str ''eventdata'', str ''event_data''] then str ''event_data''
      else if map ascii_lower raw \<in> set [str ''pageurl'', str ''page_url''] then str ''page_url''
      else if map ascii_lower raw \<in> set [str ''useragent'', str ''user_agent''] then str ''user_agent''
      else if map ascii_lower raw = str ''referrer'' then str ''referrer''
      else if map ascii_lower raw = str ''timestamp'' then str ''timestamp''
      else if map ascii_lower raw = str ''date'' then str ''date''
      else if map ascii_lower raw = str ''time'' then str ''time''
      else raw)"
proof -
  have c1: "(map ascii_lower raw \<in> set [str ''clientid'', str ''client_id''] \<or> raw = str ''clientId'')
            = (map ascii_lower raw \<in> set [str ''clientid'', str ''client_id''])"
    using camel_case_lower(1)[of raw] by (cases "raw = str ''clientId''") simp_all
  have c2: "(map ascii_lower raw \<in> set [str ''eventname'', str ''event_name''] \<or> raw = str ''eventName'')
            = (map ascii_lower raw \<in> set [str ''eventname'', str ''event_name''])"
    using camel_case_lower(2)[of raw] by (cases "raw = str ''eventName''") simp_all
  have c3: "(map ascii_lower raw \<in> set [str ''eventdata'', str ''event_data''] \<or> raw = str ''eventData'')
            = (map ascii_lower raw \<in> set [str ''eventdata'', str ''event_data''])"
    using camel_case_lower(3)[of raw] by (cases "raw = str ''eventData''") simp_all
  have c4: "(map ascii_lower raw \<in> set [str ''pageurl'', str ''page_url''] \<or> raw = str ''pageUrl'')
            = (map ascii_lower raw \<in> set [str ''pageurl'', str ''page_url''])"
    using camel_case_lower(4)[of raw] by (cases "raw = str ''pageUrl''") simp_all
  have c5: "(map ascii_lower raw \<in> set [str ''useragent'', str ''user_agent''] \<or> raw = str ''userAgent'')
            = (map ascii_lower raw \<in> set [str ''useragent'', str ''user_agent''])"
    using camel_case_lower(5)[of raw] by (cases "raw = str ''userAgent''") simp_all
  show ?thesis
    unfolding normalize_column_name_def Let_def assms c1 c2 c3 c4 c5 by (rule refl)
qed


lemma alias_plain:
  "(alias, canonical) \<in> set column_aliases \<Longrightarrow>
   alias \<noteq> [] \<and> list_all (\<lambda>c. c < 128 \<and> \<not> is_space c) (map ascii_lower alias)"
  unfolding column_aliases_def
  by (simp only: list.set insert_iff empty_iff prod.inject, elim disjE conjE FalseE)
     (simp_all add: str_simps ascii_lower_def is_space_def)

lemma alias_chain:
  "(alias, canonical) \<in> set column_aliases \<Longrightarrow>
     (if map ascii_lower alias \<in> set [str ''clientid'', str ''client_id''] then str ''client_id''
      else if map ascii_lower alias \<in> set [str ''eventname'', str ''event_name''] then str ''event_name''
      else if map ascii_lower alias \<in> set [str ''eventdata'', str ''event_data''] then str ''event_data''
      else if map ascii_lower alias \<in> set [str ''pageurl'', str ''page_url''] then str ''page_url''
      else if map ascii_lower alias \<in> set [str ''useragent'', str ''user_agent''] then str ''user_agent''
      else if map ascii_lower alias = str ''referrer'' then str ''referrer''
      else if map ascii_lower alias = str ''timestamp'' then str ''timestamp''
      else if map ascii_lower alias = str ''date'' then str ''date''
      else if map ascii_lower alias = str ''time'' then str ''time''
      else raw) = canonical"
  unfolding column_aliases_def
  by (simp only: list.set insert_iff empty_iff prod.inject, elim disjE conjE FalseE)
     (simp_all add: str_simps ascii_lower_def)

lemma null_variant_lower:
  assumes "map ascii_lower t = str ''null''"
  shows "py_lower rt t = str ''null''"
proof -
  have "list_all (\<lambda>c. c < 128 \<and> \<not> is_space c) (map ascii_lower t)"
    unfolding assms by (simp add: str_def is_space_def)
  from variant_plain[OF this] have "is_ascii t"
    by (simp add: is_ascii_def list_all_iff)
  then show ?thesis by (simp add: py_lower_def assms)
qed

section \<open>Runs\<close>

lemma validate_rows_lengths:
  "validate_rows rt vs qs rows = Inr (vs', qs') \<Longrightarrow>
   length vs' + length qs' = length vs + length qs + length rows"
proof (induction rows arbitrary: vs qs)
  case Nil
  then show ?case by simp
next
  case (Cons row rows)
  show ?case
  proof (cases "model_validate rt row")
    case (Valid m)
    with Cons.prems have "validate_rows rt (vs @ [valid_record rt m]) qs rows = Inr (vs', qs')"
      by simp
    from Cons.IH[OF this] show ?thesis by simp
  next
    case (Invalid errors)
    with Cons.prems have "validate_rows rt vs (qs @ [failure_row row errors]) rows = Inr (vs', qs')"
      by simp
    from Cons.IH[OF this] show ?thesis by simp
  next
    case Raised
    with Cons.prems show ?thesis by simp
  qed
qed

lemma status_distinct:
  "str ''FAILED'' \<noteq> str ''partial_failure''" "str ''FAILED'' \<noteq> str ''COMPLETED''"
  "str ''partial_failure'' \<noteq> str ''COMPLETED''"
  by (simp_all add: str_def)

lemma run_status_cases:
  "(run_status q i = str ''FAILED'') = (q > 0 \<and> i = 0)"
  "(run_status q i = str ''partial_failure'') = (q > 0 \<and> i > 0)"
  "(run_status q i = str ''COMPLETED'') = (q = 0)"
  using status_distinct by (auto simp: run_status_def)

section \<open>The example file\<close>

lemma iter_csv_rows_rows:
  "fst (iter_csv_rows rt (Table hs rows)) =
     map (\<lambda>row. normalize_row rt row (effective_column_map rt hs)
                  (derive_flag (map (normalize_column_name rt) hs))) rows"
  by (simp add: iter_csv_rows_def Let_def)

lemma example_header: "normalize_column_name example_runtime (str ''clientId'') = str ''client_id''"
  by (simp add: eval_defs)

lemma example_column_map:
  "effective_column_map example_runtime [str ''clientId''] = [(str ''clientId'', str ''client_id'')]"
proof -
  have "str ''timestamp'' \<noteq> str ''client_id''" "str ''date'' \<noteq> str ''client_id''"
    "str ''time'' \<noteq> str ''client_id''"
    by (simp_all add: str_def)
  then show ?thesis
    by (simp add: effective_column_map_def build_column_map_def example_header)
qed

lemma example_no_derive:
  "derive_flag (map (normalize_column_name example_runtime) [str ''clientId'']) = False"
proof -
  have "str ''date'' \<noteq> str ''client_id''" by (simp add: str_def)
  then show ?thesis by (simp add: derive_flag_def example_header)
qed

lemma example_normalize_row:
  "normalize_row example_runtime [(str ''clientId'', PyStr (str '' ''))]
     [(str ''clientId'', str ''client_id'')] False = [(str ''client_id'', PyStr (str '' ''))]"
  by (simp add: normalize_row_def target_key_def dict_get_def choose_value_def
      EXPECTED_HEADERS_def str_def)

lemma example_rows:
  "fst (iter_csv_rows example_runtime (snd example_file)) = [[(str ''client_id'', PyStr (str '' ''))]]"
  unfolding example_file_def snd_conv iter_csv_rows_rows example_column_map example_no_derive
  by (simp add: example_normalize_row)

lemma example_lookups:
  "map_of [(str ''client_id'', PyStr (str '' ''))] (str ''client_id'') = Some (PyStr (str '' ''))"
  "map_of [(str ''client_id'', PyStr (str '' ''))] (str ''timestamp'') = None"
  "map_of [(str ''client_id'', PyStr (str '' ''))] (str ''event_name'') = None"
  "map_of [(str ''client_id'', PyStr (str '' ''))] (str ''event_data'') = None"
  "map_of [(str ''client_id'', PyStr (str '' ''))] (str ''page_url'') = None"
  "map_of [(str ''client_id'', PyStr (str '' ''))] (str ''referrer'') = None"
  "map_of [(str ''client_id'', PyStr (str '' ''))] (str ''user_agent'') = None"
  by (simp_all add: str_def)

lemma example_client_id:
  "validate_required_str rt (Some (PyStr (str '' '')))
     = Field_error (str ''Value error, required field is empty'')"
  by (simp add: validate_required_str_def non_empty_string_def py_strip_def is_space_def str_def)

lemma example_invalid:
  "model_validate example_runtime [(str ''client_id'', PyStr (str '' ''))] = Invalid example_errors"
  unfolding model_validate_def example_lookups example_client_id Let_def
  by (simp add: validate_required_str_def validate_timestamp_def validate_event_name_def
      validate_event_data_def validate_referrer_def field_errors_def field_raises_def
      example_errors_def)

lemma example_ingest: "ingest_file example_runtime example_file = Inr example_outcome"
proof -
  have f: "fst example_file = str ''events.csv''" by (simp add: example_file_def)
  have s: "run_status (Suc 0) 0 = str ''FAILED''" by (simp add: run_status_def)
  show ?thesis
    unfolding ingest_file_def example_rows Let_def f
    by (simp add: example_invalid example_outcome_def s)
qed

lemma example_dry_run:
  "validator_main example_runtime [example_file] = Inr \<lparr>passed = 0, failed = 1, exit_status = 0\<rparr>"
  unfolding validator_main_def count_files.simps example_rows
  by (simp add: example_invalid)

section \<open>Validation errors\<close>

lemma model_validate_Invalid:
  assumes "model_validate rt row = Invalid errors"
  shows "errors =
     field_errors (str ''client_id'') (validate_required_str rt (map_of row (str ''client_id''))) @
     field_errors (str ''timestamp'') (validate_timestamp rt (map_of row (str ''timestamp''))) @
     field_errors (str ''event_name'') (validate_event_name rt (map_of row (str ''event_name''))) @
     field_errors (str ''event_data'') (validate_event_data rt (map_of row (str ''event_data''))) @
     field_errors (str ''page_url'') (validate_required_str rt (map_of row (str ''page_url''))) @
     field_errors (str ''referrer'') (validate_referrer (map_of row (str ''referrer''))) @
     field_errors (str ''user_agent'') (validate_required_str rt (map_of row (str ''user_agent'')))"
  using assms unfolding model_validate_def Let_def
  by (simp split: if_splits field_result.splits)

lemma summarize_field:
  "name \<noteq> [] \<Longrightarrow> summarize \<lparr>loc = [name], msg = m\<rparr> = name @ str '': '' @ m"
  by (simp add: summarize_def)

lemma field_errors_summary:
  "name \<noteq> [] \<Longrightarrow> e \<in> set (field_errors name r) \<Longrightarrow>
   loc e = [name] \<and> summarize e = name @ str '': '' @ msg e"
  by (auto simp: field_errors_def summarize_def split: field_result.splits)


lemma failure_row_error_reason:
  "dict_get (failure_row row errors) (str ''error_reason'')
     = PyStr (py_join (str '' | '') (map summarize errors))"
proof -
  have "str ''error_reason'' \<notin> set EXPECTED_HEADERS"
    by (simp add: EXPECTED_HEADERS_def str_def)
  then have "map_of (map (\<lambda>k. (k, dict_get row k)) EXPECTED_HEADERS) (str ''error_reason'') = None"
    by (simp add: map_of_eq_None_iff image_image)
  then show ?thesis
    by (simp add: failure_row_def dict_get_def map_add_def)
qed

lemma field_names_nonempty:
  "str ''client_id'' \<noteq> []" "str ''timestamp'' \<noteq> []" "str ''event_name'' \<noteq> []"
  "str ''event_data'' \<noteq> []" "str ''page_url'' \<noteq> []" "str ''referrer'' \<noteq> []"
  "str ''user_agent'' \<noteq> []"
  by (simp_all add: str_def)

lemma example_error_reason:
  "py_join (str '' | '') (map summarize example_errors) =
     str ''client_id: Value error, required field is empty | timestamp: Field required | event_name: Field required | event_data: Field required | page_url: Field required | user_agent: Field required''"
  by (simp add: example_errors_def summarize_def str_def)

section \<open>A row that passes\<close>

lemma good_timestamp:
  "validate_timestamp example_runtime (Some (PyStr (str ''2024-01-01 10:00:00'')))
     = Field_ok (Datetime 1704103200000)"
proof -
  have s: "py_strip (str ''2024-01-01 10:00:00'') = str ''2024-01-01 10:00:00''"
    by (simp add: py_strip_def is_space_def str_def)
  have c: "iso_candidate (str ''2024-01-01 10:00:00'') = str ''2024-01-01T10:00:00''"
    by (simp add: iso_candidate_def str_def)
  have n: "str ''2024-01-01 10:00:00'' \<noteq> []" by (simp add: str_def)
  have f: "fromisoformat example_runtime (str ''2024-01-01T10:00:00'') = Some (Datetime 1704103200000)"
    by (simp add: example_runtime_def)
  show ?thesis
    by (simp add: validate_timestamp_def normalize_timestamp_def s c n f)
qed

lemma good_event_name:
  "validate_event_name example_runtime (Some (PyStr (str '' Purchase ''))) = Field_ok purchase"
proof -
  have s: "py_strip (str '' Purchase '') = str ''Purchase''"
    by (simp add: py_strip_def is_space_def str_def)
  have l: "py_lower example_runtime (str ''Purchase'') = str ''purchase''"
    by (simp add: py_lower_def is_ascii_def ascii_lower_def str_def)
  have f: "find (\<lambda>e. EventName_value e = str ''purchase'') EventName_members = Some purchase"
    by (simp add: EventName_members_def str_def)
  show ?thesis
    by (simp add: validate_event_name_def normalize_event_name_def s l f)
qed

lemma good_event_data:
  "validate_event_data example_runtime (Some (PyStr (str ''{}''))) = Field_ok []"
proof -
  have s: "py_strip (str ''{}'') = str ''{}''"
    by (simp add: py_strip_def is_space_def str_def)
  have l: "py_lower example_runtime (str ''{}'') \<noteq> str ''null''"
    by (simp add: py_lower_def is_ascii_def ascii_lower_def str_def)
  have n: "str ''{}'' \<noteq> []" by (simp add: str_def)
  have j: "json_loads example_runtime (str ''{}'') = Inr (PyDict [])"
    by (simp add: example_runtime_def)
  show ?thesis
    by (simp add: validate_event_data_def parse_event_data_def s l n j)
qed

lemma good_str:
  "validate_required_str example_runtime (Some (PyStr (str ''c1''))) = Field_ok (str ''c1'')"
  by (simp add: validate_required_str_def non_empty_string_def py_strip_def is_space_def str_def)

lemma good_lookups:
  "map_of example_good_row (str ''client_id'') = Some (PyStr (str ''c1''))"
  "map_of example_good_row (str ''timestamp'') = Some (PyStr (str ''2024-01-01 10:00:00''))"
  "map_of example_good_row (str ''event_name'') = Some (PyStr (str '' Purchase ''))"
  "map_of example_good_row (str ''event_data'') = Some (PyStr (str ''{}''))"
  "map_of example_good_row (str ''page_url'') = Some (PyStr (str ''c1''))"
  "map_of example_good_row (str ''referrer'') = None"
  "map_of example_good_row (str ''user_agent'') = Some (PyStr (str ''c1''))"
  by (simp_all add: example_good_row_def str_def)

lemma example_good_valid:
  "model_validate example_runtime example_good_row =
     Valid \<lparr>client_id = str ''c1'', timestamp = Datetime 1704103200000, event_name = purchase,
            event_data = [], page_url = str ''c1'', referrer = None, user_agent = str ''c1''\<rparr>"
  unfolding model_validate_def good_lookups good_str good_timestamp good_event_name
    good_event_data Let_def
  by (simp add: validate_referrer_def field_raises_def)


section \<open>Row normalization: the merge rule\<close>

text \<open>
  Claim C5. When the source columns of a row that go to one target key hold a value that
  is neither \<open>None\<close> nor a string of white space only, the merge loop of
  \<open>normalize_row\<close> leaves the first such value, in column order, at that target; for a
  target of the canonical schema this is also the value in the row \<open>normalize_row\<close>
  returns. It holds for any number of source columns, two or more included.
\<close>

theorem normalize_row_first_non_empty_wins:
  assumes "find (\<lambda>v. \<not> is_blank v) (source_values rt column_map row t) = Some w"
  shows "map_of (merge_columns rt column_map [] row) t = Some w \<and>
         (t \<in> set EXPECTED_HEADERS \<longrightarrow> map_of (normalize_row rt row column_map flag) t = Some w)"
proof -
  from assms have ne: "source_values rt column_map row t \<noteq> []" by auto
  have m: "map_of (merge_columns rt column_map [] row) t = Some w"
    using merge_columns_from_empty[OF ne] assms by simp
  with normalize_row_keeps[OF m] show ?thesis by blast
qed

theorem normalize_row_first_non_empty_wins_witness:
  "find (\<lambda>v. \<not> is_blank v)
     (source_values example_runtime []
        [(str ''clientId'', PyStr (str '' '')), (str ''client_id'', PyStr (str ''a'')),
         (str ''CLIENT_ID'', PyStr (str ''b''))] (str ''client_id'')) = Some (PyStr (str ''a''))
   \<and> map_of (normalize_row example_runtime
        [(str ''clientId'', PyStr (str '' '')), (str ''client_id'', PyStr (str ''a'')),
         (str ''CLIENT_ID'', PyStr (str ''b''))] [] False) (str ''client_id'')
       = Some (PyStr (str ''a''))"
proof -
  have h: "find (\<lambda>v. \<not> is_blank v)
     (source_values example_runtime []
        [(str ''clientId'', PyStr (str '' '')), (str ''client_id'', PyStr (str ''a'')),
         (str ''CLIENT_ID'', PyStr (str ''b''))] (str ''client_id'')) = Some (PyStr (str ''a''))"
    by (simp add: source_values_def is_blank_def eval_defs)
  have e: "str ''client_id'' \<in> set EXPECTED_HEADERS"
    by (simp add: EXPECTED_HEADERS_def)
  from normalize_row_first_non_empty_wins[OF h, of False] e h show ?thesis by blast
qed

text \<open>
  Claim C10. When every source value of a target key is blank (\<open>None\<close> or a string of
  white space only), the merge loop leaves the last of them, in column order, and the row
  \<open>normalize_row\<close> returns holds it for a target of the canonical schema: after an empty
  string, a later \<open>None\<close> stays.
\<close>

theorem normalize_row_all_blank_last_wins:
  assumes "source_values rt column_map row t \<noteq> []"
    and "find (\<lambda>v. \<not> is_blank v) (source_values rt column_map row t) = None"
  shows "map_of (merge_columns rt column_map [] row) t
           = Some (last (source_values rt column_map row t)) \<and>
         (t \<in> set EXPECTED_HEADERS \<longrightarrow>
            map_of (normalize_row rt row column_map flag) t
              = Some (last (source_values rt column_map row t)))"
proof -
  have m: "map_of (merge_columns rt column_map [] row) t
             = Some (last (source_values rt column_map row t))"
    using merge_columns_from_empty[OF assms(1)] assms(2) by simp
  with normalize_row_keeps[OF m] show ?thesis by blast
qed

theorem normalize_row_all_blank_last_wins_witness:
  "source_values example_runtime (build_column_map example_runtime [str ''clientId'', str ''client_id''])
     [(str ''clientId'', PyStr []), (str ''client_id'', PyNone)] (str ''client_id'')
     = [PyStr [], PyNone]
   \<and> map_of (normalize_row example_runtime
        [(str ''clientId'', PyStr []), (str ''client_id'', PyNone)]
        (build_column_map example_runtime [str ''clientId'', str ''client_id'']) False)
        (str ''client_id'') = Some PyNone"
proof -
  have sv: "source_values example_runtime
      (build_column_map example_runtime [str ''clientId'', str ''client_id''])
     [(str ''clientId'', PyStr []), (str ''client_id'', PyNone)] (str ''client_id'')
     = [PyStr [], PyNone]"
    by (simp add: source_values_def eval_defs)
  have e: "str ''client_id'' \<in> set EXPECTED_HEADERS"
    by (simp add: EXPECTED_HEADERS_def)
  have n: "find (\<lambda>v. \<not> is_blank v) [PyStr [], PyNone] = None"
    by (simp add: is_blank_def py_strip_def)
  from normalize_row_all_blank_last_wins[of example_runtime
      "build_column_map example_runtime [str ''clientId'', str ''client_id'']"
      "[(str ''clientId'', PyStr []), (str ''client_id'', PyNone)]" "str ''client_id''" False]
    sv e n
  show ?thesis by simp
qed

section \<open>Headers: a timestamp from date and time columns\<close>

text \<open>
  Claim C6. For a file whose normalized headers hold \<open>date\<close> and \<open>time\<close> and no
  \<open>timestamp\<close>, the header set that \<open>iter_csv_rows\<close> reports holds \<open>timestamp\<close> and
  neither \<open>date\<close> nor \<open>time\<close>; and in every row of the file (its keys are headers of the
  file) whose date and time cells are non-empty, the normalized row's \<open>timestamp\<close> is
  the date, one space, and the time. The cell of a target is the merged value of the
  columns that go to it, which is the cell itself when there is one such column.
\<close>

theorem date_time_columns_derive_timestamp:
  assumes "str ''date'' \<in> set (map (normalize_column_name rt) hs)"
    and "str ''time'' \<in> set (map (normalize_column_name rt) hs)"
    and "str ''timestamp'' \<notin> set (map (normalize_column_name rt) hs)"
  shows "str ''timestamp'' \<in> set (normalized_headers (snd (iter_csv_rows rt (Table hs rows)))) \<and>
         str ''date'' \<notin> set (normalized_headers (snd (iter_csv_rows rt (Table hs rows)))) \<and>
         str ''time'' \<notin> set (normalized_headers (snd (iter_csv_rows rt (Table hs rows)))) \<and>
         length (fst (iter_csv_rows rt (Table hs rows))) = length rows \<and>
         (\<forall>i < length rows.
            fst ` set (rows ! i) \<subseteq> set hs \<longrightarrow>
            py_truthy (merged_source rt (effective_column_map rt hs) (rows ! i) (str ''date'')) \<longrightarrow>
            py_truthy (merged_source rt (effective_column_map rt hs) (rows ! i) (str ''time'')) \<longrightarrow>
            map_of (fst (iter_csv_rows rt (Table hs rows)) ! i) (str ''timestamp'') =
              Some (PyStr
                (format_value rt (merged_source rt (effective_column_map rt hs) (rows ! i) (str ''date''))
                 @ str '' '' @
                 format_value rt (merged_source rt (effective_column_map rt hs) (rows ! i) (str ''time'')))))"
proof -
  from assms have flag: "derive_flag (map (normalize_column_name rt) hs)"
    by (simp add: derive_flag_def)
  have cm: "effective_column_map rt hs = build_column_map rt hs"
    by (rule effective_column_map_derive[OF flag])
  have hdrs: "set (normalized_headers (snd (iter_csv_rows rt (Table hs rows)))) =
              insert (str ''timestamp'') (normalize_column_name rt ` set hs) - {str ''date'', str ''time''}"
    by (simp add: iter_csv_rows_def Let_def effective_header_set_derive[OF flag])
  have rows_eq: "fst (iter_csv_rows rt (Table hs rows)) =
                 map (\<lambda>row. normalize_row rt row (build_column_map rt hs) True) rows"
    using flag by (simp add: iter_csv_rows_def Let_def cm)
  have row_part: "map_of (fst (iter_csv_rows rt (Table hs rows)) ! i) (str ''timestamp'') =
              Some (PyStr
                (format_value rt (merged_source rt (build_column_map rt hs) (rows ! i) (str ''date''))
                 @ str '' '' @
                 format_value rt (merged_source rt (build_column_map rt hs) (rows ! i) (str ''time''))))"
    if "i < length rows" "fst ` set (rows ! i) \<subseteq> set hs"
      "py_truthy (merged_source rt (build_column_map rt hs) (rows ! i) (str ''date''))"
      "py_truthy (merged_source rt (build_column_map rt hs) (rows ! i) (str ''time''))" for i
  proof -
    from that(2) have "normalize_column_name rt ` fst ` set (rows ! i)
                        \<subseteq> normalize_column_name rt ` set hs" by blast
    from normalize_row_derived[OF this _ that(3,4)] assms(3) that(1)
    show ?thesis by (simp add: rows_eq)
  qed
  show ?thesis
    using hdrs row_part by (simp add: timestamp_not_date_time cm rows_eq)
qed


theorem date_time_columns_derive_timestamp_witness:
  "str ''date'' \<in> set (map (normalize_column_name example_runtime) [str ''Date'', str '' TIME'', str ''clientId''])
   \<and> str ''time'' \<in> set (map (normalize_column_name example_runtime) [str ''Date'', str '' TIME'', str ''clientId''])
   \<and> str ''timestamp'' \<notin> set (map (normalize_column_name example_runtime) [str ''Date'', str '' TIME'', str ''clientId''])
   \<and> str ''timestamp'' \<in> set (normalized_headers (snd (iter_csv_rows example_runtime
         (Table [str ''Date'', str '' TIME'', str ''clientId'']
            [[(str ''Date'', PyStr (str ''2024-01-01'')), (str '' TIME'', PyStr (str ''10:00:00'')),
              (str ''clientId'', PyStr (str ''c1''))]]))))
   \<and> map_of (fst (iter_csv_rows example_runtime
         (Table [str ''Date'', str '' TIME'', str ''clientId'']
            [[(str ''Date'', PyStr (str ''2024-01-01'')), (str '' TIME'', PyStr (str ''10:00:00'')),
              (str ''clientId'', PyStr (str ''c1''))]])) ! 0) (str ''timestamp'')
       = Some (PyStr (str ''2024-01-01 10:00:00''))"
proof -
  let ?hs = "[str ''Date'', str '' TIME'', str ''clientId'']"
  let ?row = "[(str ''Date'', PyStr (str ''2024-01-01'')), (str '' TIME'', PyStr (str ''10:00:00'')),
              (str ''clientId'', PyStr (str ''c1''))]"
  have nh: "map (normalize_column_name example_runtime) ?hs = [str ''date'', str ''time'', str ''client_id'']"
    by (simp add: eval_defs)
  have a: "str ''date'' \<in> set (map (normalize_column_name example_runtime) ?hs)"
    and b: "str ''time'' \<in> set (map (normalize_column_name example_runtime) ?hs)"
    and c: "str ''timestamp'' \<notin> set (map (normalize_column_name example_runtime) ?hs)"
    unfolding nh by (simp_all add: str_simps)
  have cm: "effective_column_map example_runtime ?hs
             = [(str ''Date'', str ''date''), (str '' TIME'', str ''time''), (str ''clientId'', str ''client_id'')]"
    unfolding effective_column_map_def build_column_map_def nh Let_def
    using nh by (simp add: str_simps)
  have dv: "merged_source example_runtime (effective_column_map example_runtime ?hs) ?row (str ''date'')
             = PyStr (str ''2024-01-01'')"
    unfolding cm
    by (simp add: merged_source_def merged_cell_def source_values_def target_key_def choose_value_def
        str_simps)
  have tv: "merged_source example_runtime (effective_column_map example_runtime ?hs) ?row (str ''time'')
             = PyStr (str ''10:00:00'')"
    unfolding cm
    by (simp add: merged_source_def merged_cell_def source_values_def target_key_def choose_value_def
        str_simps)
  have keys: "fst ` set ?row \<subseteq> set ?hs" by simp
  from date_time_columns_derive_timestamp[OF a b c, of "[?row]"]
  have 1: "str ''timestamp'' \<in> set (normalized_headers (snd (iter_csv_rows example_runtime (Table ?hs [?row]))))"
    and 2: "\<forall>i<length [?row]. fst ` set ([?row] ! i) \<subseteq> set ?hs \<longrightarrow>
            py_truthy (merged_source example_runtime (effective_column_map example_runtime ?hs) ([?row] ! i) (str ''date'')) \<longrightarrow>
            py_truthy (merged_source example_runtime (effective_column_map example_runtime ?hs) ([?row] ! i) (str ''time'')) \<longrightarrow>
            map_of (fst (iter_csv_rows example_runtime (Table ?hs [?row])) ! i) (str ''timestamp'') =
              Some (PyStr
                (format_value example_runtime (merged_source example_runtime (effective_column_map example_runtime ?hs) ([?row] ! i) (str ''date''))
                 @ str '' '' @
                 format_value example_runtime (merged_source example_runtime (effective_column_map example_runtime ?hs) ([?row] ! i) (str ''time''))))"
    by blast+
  have ne: "str ''2024-01-01'' \<noteq> []" "str ''10:00:00'' \<noteq> []"
    by (simp_all add: str_def)
  from 2[rule_format, of 0] keys
  have "map_of (fst (iter_csv_rows example_runtime (Table ?hs [?row])) ! 0) (str ''timestamp'')
       = Some (PyStr (format_value example_runtime (PyStr (str ''2024-01-01'')) @ str '' '' @
                      format_value example_runtime (PyStr (str ''10:00:00''))))"
    by (simp add: dv tv ne)
  then have 3: "map_of (fst (iter_csv_rows example_runtime (Table ?hs [?row])) ! 0) (str ''timestamp'')
       = Some (PyStr (str ''2024-01-01 10:00:00''))"
    by (simp add: format_value_def str_def)
  from a b c 1 3 show ?thesis by blast
qed

section \<open>Header names\<close>

text \<open>
  Claim C9. A header token that is a casing variant of a known alias (it differs from the
  alias in the case of ASCII letters only), with any white space or byte-order marks
  around it, is mapped by \<open>normalize_column_name\<close> to the canonical name of that alias;
  a canonical name is mapped to itself; and normalizing any output of the normalization
  again returns it unchanged.
\<close>

theorem normalize_column_name_aliases_idempotent:
  assumes "(alias, canonical) \<in> set column_aliases"
    and "map ascii_lower v = map ascii_lower alias"
    and "list_all is_padding pre" and "list_all is_padding post"
  shows "normalize_column_name rt (pre @ v @ post) = canonical \<and>
         normalize_column_name rt canonical = canonical \<and>
         normalize_column_name rt (normalize_column_name rt name) = normalize_column_name rt name"
proof -
  from alias_plain[OF assms(1)]
  have ne: "alias \<noteq> []" and pl: "list_all (\<lambda>c. c < 128 \<and> \<not> is_space c) (map ascii_lower alias)"
    by blast+
  from assms(2) ne have vne: "v \<noteq> []" by (metis map_is_Nil_conv)
  from pl have plv: "list_all (\<lambda>c. c < 128 \<and> \<not> is_space c) (map ascii_lower v)"
    by (simp only: assms(2))
  have raw: "sanitize_header rt (PyStr (pre @ v @ post)) = v"
    by (rule sanitize_variant(1)[OF assms(3) assms(4) vne plv])
  have low: "py_lower rt v = map ascii_lower v"
    by (rule sanitize_variant(2)[OF assms(3) assms(4) vne plv])
  have 1: "normalize_column_name rt (pre @ v @ post) = canonical"
    unfolding normalize_column_name_by_lower[OF raw low] assms(2)
    by (rule alias_chain[OF assms(1)])
  have "normalize_column_name rt (normalize_column_name rt (pre @ v @ post))
          = normalize_column_name rt (pre @ v @ post)"
    by (rule normalize_column_name_idem)
  then have 2: "normalize_column_name rt canonical = canonical" by (simp only: 1)
  from 1 2 normalize_column_name_idem[of rt name] show ?thesis by blast
qed

theorem normalize_column_name_aliases_idempotent_witness:
  "(str ''clientId'', str ''client_id'') \<in> set column_aliases \<and>
   map ascii_lower (str ''CLIENTID'') = map ascii_lower (str ''clientId'') \<and>
   list_all is_padding [BOM, 32] \<and> list_all is_padding [9] \<and>
   normalize_column_name example_runtime ([BOM, 32] @ str ''CLIENTID'' @ [9]) = str ''client_id'' \<and>
   normalize_column_name example_runtime (str ''client_id'') = str ''client_id''"
proof -
  have a: "(str ''clientId'', str ''client_id'') \<in> set column_aliases"
    by (simp add: column_aliases_def)
  have b: "map ascii_lower (str ''CLIENTID'') = map ascii_lower (str ''clientId'')"
    by (simp add: str_simps ascii_lower_def)
  have c: "list_all is_padding [BOM, 32]" and d: "list_all is_padding [9]"
    by (simp_all add: is_padding_def is_space_def)
  from normalize_column_name_aliases_idempotent[OF a b c d, of example_runtime] a b c d
  show ?thesis by blast
qed

section \<open>Timestamps\<close>

text \<open>
  Claim C1 says that a boolean timestamp is always rejected. In the code the numeric test
  comes before the boolean test and holds for a boolean, so a boolean takes the numeric
  path: without pandas it is rejected with the message of that path, and with pandas the
  result is whatever the epoch conversion, called with the unit of seconds, gives for
  it. The rejection written for booleans is never reached.
\<close>

theorem normalize_timestamp_bool_is_numeric:
  "normalize_timestamp rt (PyBool b) =
     (case pd rt of
        None \<Rightarrow> ValueError (str ''timestamp numeric provided but pandas unavailable'')
      | Some p \<Rightarrow> map_outcome PyDatetime (to_datetime_unit p (PyBool b) Seconds))"
proof -
  have u: "timestamp_unit (PyBool b) = Seconds"
    by (simp add: timestamp_unit_def)
  show ?thesis
    by (simp add: normalize_timestamp_def u split: option.splits)
qed

text \<open>
  Claim C4 says the unit is milliseconds when the magnitude of the number exceeds
  10,000,000,000. The code compares the number itself: a negative number of large
  magnitude is read as seconds.
\<close>

theorem numeric_timestamp_magnitude_counterexample:
  "\<bar>- 20000000000000 :: int\<bar> > 10000000000 \<and>
   timestamp_unit (PyInt (- 20000000000000)) = Seconds \<and>
   normalize_timestamp example_runtime (PyInt (- 20000000000000))
     = Returns (PyDatetime (Datetime (- 20000000000000000)))"
  by (simp add: timestamp_unit_def normalize_timestamp_def example_runtime_def example_pandas_def)

text \<open>
  Claim C4, amended. With pandas available, an integer or float timestamp (not a
  boolean) is converted with the unit of milliseconds when the number itself is greater
  than 10,000,000,000 and with the unit of seconds otherwise (so for every negative
  number and for NaN); 1700000000 is read as seconds and 1700000000000 as milliseconds,
  and 1700000000 seconds are 1700000000000 milliseconds.
\<close>

theorem numeric_timestamp_unit:
  assumes "pd rt = Some p"
  shows "normalize_timestamp rt (PyInt i) =
           map_outcome PyDatetime
             (to_datetime_unit p (PyInt i) (if i > 10000000000 then Milliseconds else Seconds)) \<and>
         normalize_timestamp rt (PyFloat (Finite q)) =
           map_outcome PyDatetime
             (to_datetime_unit p (PyFloat (Finite q))
                (if q > 10000000000 then Milliseconds else Seconds)) \<and>
         normalize_timestamp rt (PyFloat PosInf) =
           map_outcome PyDatetime (to_datetime_unit p (PyFloat PosInf) Milliseconds) \<and>
         normalize_timestamp rt (PyFloat NegInf) =
           map_outcome PyDatetime (to_datetime_unit p (PyFloat NegInf) Seconds) \<and>
         normalize_timestamp rt (PyFloat NaN) =
           map_outcome PyDatetime (to_datetime_unit p (PyFloat NaN) Seconds) \<and>
         timestamp_unit (PyInt 1700000000) = Seconds \<and>
         timestamp_unit (PyInt 1700000000000) = Milliseconds \<and>
         (1700000000 :: int) * 1000 = 1700000000000"
  using assms by (simp add: normalize_timestamp_def timestamp_unit_def)

theorem numeric_timestamp_unit_witness:
  "pd example_runtime = Some example_pandas \<and>
   normalize_timestamp example_runtime (PyInt 1700000000)
     = Returns (PyDatetime (Datetime 1700000000000)) \<and>
   normalize_timestamp example_runtime (PyInt 1700000000000)
     = Returns (PyDatetime (Datetime 1700000000000))"
proof -
  have h: "pd example_runtime = Some example_pandas"
    by (simp add: example_runtime_def)
  from numeric_timestamp_unit[OF h, of 1700000000]
  have a: "normalize_timestamp example_runtime (PyInt 1700000000)
     = Returns (PyDatetime (Datetime 1700000000000))"
    by (simp add: example_pandas_def)
  from numeric_timestamp_unit[OF h, of 1700000000000]
  have b: "normalize_timestamp example_runtime (PyInt 1700000000000)
     = Returns (PyDatetime (Datetime 1700000000000))"
    by (simp add: example_pandas_def)
  from h a b show ?thesis by blast
qed

section \<open>Event data\<close>

text \<open>
  Claim C7. \<open>parse_event_data\<close> gives the empty object for \<open>None\<close>, for a string that
  is empty or white space only, and for a string that after stripping is \<open>null\<close> in any
  casing; it gives an object back as it is; it fails with the message that the JSON must
  be an object for any other string that the JSON parser reads as a value that is not an
  object; and it fails for a value of any other type (boolean, integer, float, datetime,
  list).
\<close>

theorem parse_event_data_cases:
  "parse_event_data rt PyNone = Returns [] \<and>
   (py_strip s = [] \<longrightarrow> parse_event_data rt (PyStr s) = Returns []) \<and>
   (map ascii_lower (py_strip s) = str ''null'' \<longrightarrow> parse_event_data rt (PyStr s) = Returns []) \<and>
   parse_event_data rt (PyDict d) = Returns d \<and>
   (py_strip s \<noteq> [] \<longrightarrow> py_lower rt (py_strip s) \<noteq> str ''null'' \<longrightarrow>
      json_loads rt (py_strip s) = Inr parsed \<longrightarrow> (\<forall>d'. parsed \<noteq> PyDict d') \<longrightarrow>
      parse_event_data rt (PyStr s) = ValueError (str ''event_data JSON must be an object'')) \<and>
   parse_event_data rt (PyBool b) = ValueError (str ''event_data must be a JSON string or dict'') \<and>
   parse_event_data rt (PyInt i) = ValueError (str ''event_data must be a JSON string or dict'') \<and>
   parse_event_data rt (PyFloat f) = ValueError (str ''event_data must be a JSON string or dict'') \<and>
   parse_event_data rt (PyDatetime t) = ValueError (str ''event_data must be a JSON string or dict'') \<and>
   parse_event_data rt (PyList l) = ValueError (str ''event_data must be a JSON string or dict'')"
proof -
  have 1: "parse_event_data rt PyNone = Returns []"
    by (simp add: parse_event_data_def)
  have 2: "py_strip s = [] \<longrightarrow> parse_event_data rt (PyStr s) = Returns []"
    by (simp add: parse_event_data_def)
  have 3: "map ascii_lower (py_strip s) = str ''null'' \<longrightarrow> parse_event_data rt (PyStr s) = Returns []"
    by (simp add: parse_event_data_def Let_def null_variant_lower)
  have 4: "parse_event_data rt (PyDict d) = Returns d"
    by (simp add: parse_event_data_def)
  have 5: "py_strip s \<noteq> [] \<longrightarrow> py_lower rt (py_strip s) \<noteq> str ''null'' \<longrightarrow>
      json_loads rt (py_strip s) = Inr parsed \<longrightarrow> (\<forall>d'. parsed \<noteq> PyDict d') \<longrightarrow>
      parse_event_data rt (PyStr s) = ValueError (str ''event_data JSON must be an object'')"
    by (cases parsed) (simp_all add: parse_event_data_def Let_def)
  have 6: "parse_event_data rt (PyBool b) = ValueError (str ''event_data must be a JSON string or dict'')"
    "parse_event_data rt (PyInt i) = ValueError (str ''event_data must be a JSON string or dict'')"
    "parse_event_data rt (PyFloat f) = ValueError (str ''event_data must be a JSON string or dict'')"
    "parse_event_data rt (PyDatetime t) = ValueError (str ''event_data must be a JSON string or dict'')"
    "parse_event_data rt (PyList l) = ValueError (str ''event_data must be a JSON string or dict'')"
    by (simp_all add: parse_event_data_def)
  from 1 2 3 4 5 6 show ?thesis by blast
qed

theorem parse_event_data_cases_witness:
  "py_strip (str '' '') = [] \<and>
   parse_event_data example_runtime (PyStr (str '' '')) = Returns [] \<and>
   parse_event_data example_runtime (PyDict [(str ''a'', PyInt 1)]) = Returns [(str ''a'', PyInt 1)] \<and>
   parse_event_data example_runtime (PyInt 3)
     = ValueError (str ''event_data must be a JSON string or dict'')"
proof -
  have e: "py_strip (str '' '') = []"
    by (simp add: py_strip_def str_def is_space_def)
  from parse_event_data_cases[of example_runtime "str '' ''" "[(str ''a'', PyInt 1)]" PyNone _ 3] e
  show ?thesis by blast
qed


section \<open>The run log\<close>

text \<open>
  Claim C3. For every file that \<open>ingest.py\<close> processes, the status of its log entry is
  \<open>FAILED\<close> exactly when the quarantined count is positive and the inserted count is
  zero, \<open>partial_failure\<close> exactly when both counts are positive, and \<open>COMPLETED\<close>
  otherwise, that is exactly when no row was quarantined, so also for a file of zero
  rows. The inserted count is the size of the batch handed to the database, the
  quarantined count the number of quarantine rows, and the two add up to the rows read.
\<close>

theorem run_log_status:
  assumes "ingest_file rt f = Inr out"
  shows "(status (log_entry out) = str ''FAILED'') =
           (rows_quarantined (log_entry out) > 0 \<and> rows_inserted (log_entry out) = 0) \<and>
         (status (log_entry out) = str ''partial_failure'') =
           (rows_quarantined (log_entry out) > 0 \<and> rows_inserted (log_entry out) > 0) \<and>
         (status (log_entry out) = str ''COMPLETED'') = (rows_quarantined (log_entry out) = 0) \<and>
         rows_inserted (log_entry out) = length (inserted out) \<and>
         rows_quarantined (log_entry out)
           = (case quarantine_file out of None \<Rightarrow> 0 | Some q \<Rightarrow> length q) \<and>
         rows_read (log_entry out) = rows_inserted (log_entry out) + rows_quarantined (log_entry out) \<and>
         rows_read (log_entry out) = length (fst (iter_csv_rows rt (snd f)))"
proof -
  let ?rows = "fst (iter_csv_rows rt (snd f))"
  from assms obtain vs qs where v: "validate_rows rt [] [] ?rows = Inr (vs, qs)"
    and out: "out = \<lparr>inserted = vs,
                        quarantine_file = (if qs \<noteq> [] then Some qs else None),
                        log_entry =
                          \<lparr>filename = fst f, rows_read = length ?rows,
                           rows_inserted = (if vs \<noteq> [] then length vs else 0),
                           rows_quarantined = length qs,
                           status = run_status (length qs) (if vs \<noteq> [] then length vs else 0)\<rparr>\<rparr>"
    by (auto simp: ingest_file_def Let_def split: sum.splits if_splits)
  from validate_rows_lengths[OF v] have len: "length vs + length qs = length ?rows" by simp
  have ins: "(if vs \<noteq> [] then length vs else 0) = length vs" by simp
  show ?thesis
    unfolding out ins using len by (simp add: run_status_cases)
qed

theorem run_log_status_witness:
  "ingest_file example_runtime example_file = Inr example_outcome \<and>
   status (log_entry example_outcome) = str ''FAILED'' \<and>
   rows_quarantined (log_entry example_outcome) = 1 \<and>
   rows_inserted (log_entry example_outcome) = 0 \<and>
   rows_read (log_entry example_outcome) = 1 \<and>
   inserted example_outcome = []"
proof -
  have q: "rows_quarantined (log_entry example_outcome) = 1"
    and i: "rows_inserted (log_entry example_outcome) = 0"
    and b: "inserted example_outcome = []"
    by (simp_all add: example_outcome_def)
  from run_log_status[OF example_ingest] q i
  have "status (log_entry example_outcome) = str ''FAILED''"
    and "rows_read (log_entry example_outcome) = 1"
    by simp_all
  with example_ingest q i b show ?thesis by blast
qed


section \<open>The dry run\<close>

text \<open>
  Claim C2 says the dry run exits with status 1 when at least one row failed validation.
  \<open>main\<close> of validator.py returns 0 on every path: for the example file one row fails and
  the exit status is 0.
\<close>

theorem dry_run_exit_status_counterexample:
  "validator_main example_runtime [example_file] = Inr \<lparr>passed = 0, failed = 1, exit_status = 0\<rparr> \<and>
   failed \<lparr>passed = 0, failed = 1, exit_status = 0\<rparr> > 0 \<and>
   exit_status \<lparr>passed = 0, failed = 1, exit_status = 0\<rparr> \<noteq> 1"
  using example_dry_run by simp

text \<open>
  Claim C2, amended. Whenever \<open>main\<close> of validator.py returns, the exit status of the dry
  run is 0, when no row failed validation and also when rows failed; the process ends
  otherwise only by an exception that leaves \<open>main\<close>.
\<close>

theorem dry_run_exit_status:
  assumes "validator_main rt csv_files = Inr r"
  shows "exit_status r = 0"
  using assms by (auto simp: validator_main_def split: sum.splits)

theorem dry_run_exit_status_witness:
  "validator_main example_runtime [example_file] = Inr \<lparr>passed = 0, failed = 1, exit_status = 0\<rparr> \<and>
   exit_status \<lparr>passed = 0, failed = 1, exit_status = 0\<rparr> = 0"
  using dry_run_exit_status[OF example_dry_run] example_dry_run by blast


section \<open>Quarantine records\<close>

text \<open>
  Claim C8. For a row that fails validation, \<open>error_reason\<close> of its quarantine record is
  the join, with the separator \<open>" | "\<close>, of one summary per error, and the errors are
  those of all failing fields, in the order of the fields: a failure of one field does
  not hide the failure of another. The summary of an error is its location, a colon and
  the message when the location is not empty, which is the field's name for the error of
  a field, and the message alone for an error without a location.
\<close>

theorem error_reason_collects_field_errors:
  assumes "model_validate rt row = Invalid errors"
  shows "dict_get (failure_row row errors) (str ''error_reason'')
           = PyStr (py_join (str '' | '') (map summarize errors)) \<and>
         errors =
           field_errors (str ''client_id'') (validate_required_str rt (map_of row (str ''client_id''))) @
           field_errors (str ''timestamp'') (validate_timestamp rt (map_of row (str ''timestamp''))) @
           field_errors (str ''event_name'') (validate_event_name rt (map_of row (str ''event_name''))) @
           field_errors (str ''event_data'') (validate_event_data rt (map_of row (str ''event_data''))) @
           field_errors (str ''page_url'') (validate_required_str rt (map_of row (str ''page_url''))) @
           field_errors (str ''referrer'') (validate_referrer (map_of row (str ''referrer''))) @
           field_errors (str ''user_agent'') (validate_required_str rt (map_of row (str ''user_agent''))) \<and>
         errors \<noteq> [] \<and>
         (\<forall>e \<in> set errors. \<exists>name. loc e = [name] \<and> summarize e = name @ str '': '' @ msg e) \<and>
         summarize \<lparr>loc = [], msg = m\<rparr> = m"
proof -
  note eq = model_validate_Invalid[OF assms]
  have ne: "errors \<noteq> []"
  proof
    assume "errors = []"
    with eq have
      "field_errors (str ''client_id'') (validate_required_str rt (map_of row (str ''client_id''))) = []"
      "field_errors (str ''timestamp'') (validate_timestamp rt (map_of row (str ''timestamp''))) = []"
      "field_errors (str ''event_name'') (validate_event_name rt (map_of row (str ''event_name''))) = []"
      "field_errors (str ''event_data'') (validate_event_data rt (map_of row (str ''event_data''))) = []"
      "field_errors (str ''page_url'') (validate_required_str rt (map_of row (str ''page_url''))) = []"
      "field_errors (str ''referrer'') (validate_referrer (map_of row (str ''referrer''))) = []"
      "field_errors (str ''user_agent'') (validate_required_str rt (map_of row (str ''user_agent''))) = []"
      by simp_all
    then show False
      using assms unfolding model_validate_def Let_def
      by (simp add: field_errors_def field_raises_def split: if_splits field_result.splits)
  qed
  have each: "\<exists>name. loc e = [name] \<and> summarize e = name @ str '': '' @ msg e"
    if "e \<in> set errors" for e
    using that unfolding eq set_append Un_iff
    by (elim disjE) (blast dest: field_errors_summary[OF field_names_nonempty(1)]
        field_errors_summary[OF field_names_nonempty(2)]
        field_errors_summary[OF field_names_nonempty(3)]
        field_errors_summary[OF field_names_nonempty(4)]
        field_errors_summary[OF field_names_nonempty(5)]
        field_errors_summary[OF field_names_nonempty(6)]
        field_errors_summary[OF field_names_nonempty(7)])+
  have last: "summarize \<lparr>loc = [], msg = m\<rparr> = m"
    by (simp add: summarize_def)
  from failure_row_error_reason[of row errors] eq ne each last show ?thesis by blast
qed

theorem error_reason_collects_field_errors_witness:
  "model_validate example_runtime [(str ''client_id'', PyStr (str '' ''))] = Invalid example_errors \<and>
   dict_get (failure_row [(str ''client_id'', PyStr (str '' ''))] example_errors) (str ''error_reason'')
     = PyStr (str ''client_id: Value error, required field is empty | timestamp: Field required | event_name: Field required | event_data: Field required | page_url: Field required | user_agent: Field required'') \<and>
   length example_errors = 6"
proof -
  from error_reason_collects_field_errors[OF example_invalid]
  have "dict_get (failure_row [(str ''client_id'', PyStr (str '' ''))] example_errors) (str ''error_reason'')
           = PyStr (py_join (str '' | '') (map summarize example_errors))"
    by blast
  then have "dict_get (failure_row [(str ''client_id'', PyStr (str '' ''))] example_errors) (str ''error_reason'')
     = PyStr (str ''client_id: Value error, required field is empty | timestamp: Field required | event_name: Field required | event_data: Field required | page_url: Field required | user_agent: Field required'')"
    by (simp only: example_error_reason)
  moreover have "length example_errors = 6" by (simp add: example_errors_def)
  ultimately show ?thesis using example_invalid by blast
qed

end
